theory Spec2Isabelle
  imports Main "HOL-Library.Multiset"
begin

section \<open>Characters and strings\<close>

text \<open>
  The parser works on Python \<open>str\<close> values. A text is modelled as a \<open>string\<close>, one
  \<open>char\<close> per code point, for the code points 0 to 255 (ASCII and Latin-1). On this range
  the character classes below are the ones Python applies: \<open>str.isspace\<close> and the class
  \<open>\s\<close>, the classes \<open>\d\<close> and \<open>\w\<close> of the \<open>re\<close> module on \<open>str\<close> patterns, and
  \<open>str.upper\<close>. A text with a code point above 255 is outside the model.
\<close>

definition code :: "char \<Rightarrow> nat" where
  "code c = of_char c"

definition is_upper :: "char \<Rightarrow> bool" where
  \<comment> \<open>the ASCII capital letters\<close>
  "is_upper c = (65 \<le> code c \<and> code c \<le> 90)"

definition is_lower :: "char \<Rightarrow> bool" where
  \<comment> \<open>the ASCII small letters\<close>
  "is_lower c = (97 \<le> code c \<and> code c \<le> 122)"

definition is_digit :: "char \<Rightarrow> bool" where
  \<comment> \<open>the class \<open>\d\<close>: below 256 the decimal digits are the ASCII ones\<close>
  "is_digit c = (48 \<le> code c \<and> code c \<le> 57)"

definition is_space :: "char \<Rightarrow> bool" where
  \<comment> \<open>\<open>str.isspace\<close> and \<open>\s\<close>: TAB, LF, VT, FF, CR, FS, GS, RS, US, the blank, NEL and
      the no-break space\<close>
  "is_space c =
     ((9 \<le> code c \<and> code c \<le> 13) \<or> (28 \<le> code c \<and> code c \<le> 32) \<or>
      code c = 133 \<or> code c = 160)"

definition is_latin1_alnum :: "char \<Rightarrow> bool" where
  \<comment> \<open>the alphanumeric code points from 128 to 255: the ordinal indicators, the superscript
      digits, the micro sign, the vulgar fractions and the accented letters\<close>
  "is_latin1_alnum c =
     (code c = 170 \<or> code c = 178 \<or> code c = 179 \<or> code c = 181 \<or> code c = 185 \<or>
      code c = 186 \<or> (188 \<le> code c \<and> code c \<le> 190) \<or>
      (192 \<le> code c \<and> code c \<le> 214) \<or> (216 \<le> code c \<and> code c \<le> 246) \<or>
      248 \<le> code c)"

definition is_word :: "char \<Rightarrow> bool" where
  \<comment> \<open>the class \<open>\w\<close>: alphanumeric or the underscore\<close>
  "is_word c =
     (is_upper c \<or> is_lower c \<or> is_digit c \<or> c = CHR ''_'' \<or> is_latin1_alnum c)"

text \<open>
  \<open>c.upper()\<close> for a string of one character. The sharp s becomes \<open>SS\<close>. For the micro sign
  and for y with diaeresis Python gives the code points U+039C and U+0178, above 255; the
  model leaves these two characters as they are. The parser compares upper-cased text only
  with ASCII words and with the upper-cased ASCII names its patterns capture, so that no
  result depends on this choice.
\<close>

definition upper_char :: "char \<Rightarrow> string" where
  "upper_char c =
     (if is_lower c then [char_of (code c - 32)]
      else if code c = 223 then ''SS''
      else if 224 \<le> code c \<and> code c \<le> 254 \<and> code c \<noteq> 247 then [char_of (code c - 32)]
      else [c])"

definition upper :: "string \<Rightarrow> string" where
  "upper s = concat (map upper_char s)"

text \<open>
  The case variants \<open>re.IGNORECASE\<close> tries for a character against the items of a pattern.
  All items of the parser's patterns are ASCII, and below 256 only an ASCII letter has a case
  variant that is ASCII.
\<close>

definition swap_upper :: "char \<Rightarrow> char" where
  "swap_upper c = (if is_lower c then char_of (code c - 32) else c)"

definition swap_lower :: "char \<Rightarrow> char" where
  "swap_lower c = (if is_upper c then char_of (code c + 32) else c)"

definition newline :: char where
  "newline = CHR 0x0A"

text \<open>\<open>s.split(sep)\<close> for a separator of one character: never the empty list.\<close>

fun split :: "char \<Rightarrow> string \<Rightarrow> string list" where
  "split sep [] = [[]]"
| "split sep (c # cs) =
     (if c = sep then [] # split sep cs
      else (case split sep cs of [] \<Rightarrow> [[c]] | l # ls \<Rightarrow> (c # l) # ls))"

text \<open>\<open>sep.join(ls)\<close>.\<close>

fun join :: "char \<Rightarrow> string list \<Rightarrow> string" where
  "join sep [] = []"
| "join sep [l] = l"
| "join sep (l # ls) = l @ sep # join sep ls"

definition strip :: "string \<Rightarrow> string" where
  "strip s = rev (dropWhile is_space (rev (dropWhile is_space s)))"

definition startswith :: "string \<Rightarrow> string \<Rightarrow> bool" where
  "startswith s p = (take (length p) s = p)"

text \<open>\<open>s[a:b]\<close> for \<open>0 \<le> a\<close> and \<open>0 \<le> b\<close>.\<close>

definition slice :: "string \<Rightarrow> nat \<Rightarrow> nat \<Rightarrow> string" where
  "slice s a b = take (b - a) (drop a s)"

text \<open>\<open>s.rfind(c, 0, e)\<close>: the highest index below \<open>e\<close> holding \<open>c\<close>; \<open>None\<close> is Python's \<open>-1\<close>.\<close>

fun rfind_upto :: "char \<Rightarrow> string \<Rightarrow> nat \<Rightarrow> nat option" where
  "rfind_upto c s 0 = None"
| "rfind_upto c s (Suc i) =
     (if i < length s \<and> s ! i = c then Some i else rfind_upto c s i)"

definition rfind :: "char \<Rightarrow> string \<Rightarrow> nat \<Rightarrow> nat option" where
  "rfind c s e = rfind_upto c s (min e (length s))"

text \<open>\<open>str(n)\<close> for a natural number.\<close>

definition digit_char :: "nat \<Rightarrow> char" where
  "digit_char d = char_of (48 + d)"

function str_nat :: "nat \<Rightarrow> string" where
  "str_nat n = (if n < 10 then [digit_char n] else str_nat (n div 10) @ [digit_char (n mod 10)])"
  by pat_completeness auto
termination
  by (relation "measure id") auto

section \<open>Regular expressions\<close>

text \<open>
  The patterns of the parser use literals, character sets, \<open>\s\<close>, \<open>\d\<close>, the dot under
  \<open>re.DOTALL\<close>, \<open>\b\<close>, alternation, optional parts, capture groups, and the repetitions
  \<open>*\<close>, \<open>+\<close> and \<open>*?\<close> of a single character class. The matcher is a backtracking one: it
  lists every way a pattern matches at a position, in the order in which \<open>re\<close> tries them,
  so that the head of the list is the match \<open>re\<close> reports.
\<close>

datatype item = Ch char | Range char char

datatype atom = Lit char | CSet "item list" | NegSet "item list" | WS | Digit | DotAll

datatype regex =
    Eps
  | Atom atom
  | WordB
  | Seq regex regex
  | Alt regex regex
  | Opt regex
  | Star atom
  | Plus atom
  | LazyStar atom
  | Grp nat regex

fun item_base :: "item \<Rightarrow> char \<Rightarrow> bool" where
  "item_base (Ch x) c = (c = x)"
| "item_base (Range a b) c = (code a \<le> code c \<and> code c \<le> code b)"

definition item_match :: "bool \<Rightarrow> item \<Rightarrow> char \<Rightarrow> bool" where
  \<comment> \<open>the flag is \<open>re.IGNORECASE\<close>\<close>
  "item_match ic it c =
     (item_base it c \<or> (ic \<and> (item_base it (swap_upper c) \<or> item_base it (swap_lower c))))"

fun atom_match :: "bool \<Rightarrow> atom \<Rightarrow> char \<Rightarrow> bool" where
  "atom_match ic (Lit x) c = item_match ic (Ch x) c"
| "atom_match ic (CSet its) c = list_ex (\<lambda>it. item_match ic it c) its"
| "atom_match ic (NegSet its) c = (\<not> list_ex (\<lambda>it. item_match ic it c) its)"
| "atom_match ic WS c = is_space c"
| "atom_match ic Digit c = is_digit c"
| "atom_match ic DotAll c = True"

text \<open>
  A matching state is the character before the position (if any), the text from the
  position on, and the groups captured so far.
\<close>

type_synonym groups = "nat \<Rightarrow> string option"
type_synonym mstate = "char option \<times> string \<times> groups"

definition word_boundary :: "char option \<Rightarrow> string \<Rightarrow> bool" where
  "word_boundary p s =
     ((case p of None \<Rightarrow> False | Some c \<Rightarrow> is_word c) \<noteq>
      (case s of [] \<Rightarrow> False | c # _ \<Rightarrow> is_word c))"

text \<open>The positions reached by consuming zero or more characters of a class, nearest first.\<close>

fun chew :: "bool \<Rightarrow> atom \<Rightarrow> char option \<Rightarrow> string \<Rightarrow> (char option \<times> string) list" where
  "chew ic a p [] = [(p, [])]"
| "chew ic a p (c # cs) =
     (p, c # cs) # (if atom_match ic a c then chew ic a (Some c) cs else [])"

fun matches :: "bool \<Rightarrow> regex \<Rightarrow> mstate \<Rightarrow> mstate list" where
  "matches ic Eps st = [st]"
| "matches ic (Atom a) (p, s, g) =
     (case s of [] \<Rightarrow> [] | c # cs \<Rightarrow> if atom_match ic a c then [(Some c, cs, g)] else [])"
| "matches ic WordB (p, s, g) = (if word_boundary p s then [(p, s, g)] else [])"
| "matches ic (Seq r1 r2) st = concat (map (matches ic r2) (matches ic r1 st))"
| "matches ic (Alt r1 r2) st = matches ic r1 st @ matches ic r2 st"
| "matches ic (Opt r) st = matches ic r st @ [st]"
| "matches ic (Star a) (p, s, g) = map (\<lambda>(p', s'). (p', s', g)) (rev (chew ic a p s))"
| "matches ic (Plus a) (p, s, g) = map (\<lambda>(p', s'). (p', s', g)) (rev (tl (chew ic a p s)))"
| "matches ic (LazyStar a) (p, s, g) = map (\<lambda>(p', s'). (p', s', g)) (chew ic a p s)"
| "matches ic (Grp k r) (p, s, g) =
     map (\<lambda>(p', s', g'). (p', s', g'(k := Some (take (length s - length s') s))))
       (matches ic r (p, s, g))"

text \<open>A match object: \<open>m.start()\<close>, \<open>m.end()\<close> and \<open>m.group(k)\<close>.\<close>

record Match =
  mstart :: nat
  mend :: nat
  mgroup :: groups

text \<open>
  \<open>re.finditer\<close>: the matches found scanning from the left, none overlapping another. After
  a match the scan goes on where the match ended (one character further after an empty
  match).
\<close>

function finditer_from :: "bool \<Rightarrow> regex \<Rightarrow> string \<Rightarrow> char option \<Rightarrow> string \<Rightarrow> Match list" where
  "finditer_from ic r text p s =
     (case matches ic r (p, s, \<lambda>_. None) of
        [] \<Rightarrow> (case s of [] \<Rightarrow> [] | c # cs \<Rightarrow> finditer_from ic r text (Some c) cs)
      | (p', s', g) # _ \<Rightarrow>
          \<lparr>mstart = length text - length s, mend = length text - length s', mgroup = g\<rparr> #
          (if length s' < length s then finditer_from ic r text p' s'
           else (case s of [] \<Rightarrow> [] | c # cs \<Rightarrow> finditer_from ic r text (Some c) cs)))"
  by pat_completeness auto
termination
  by (relation "measure (\<lambda>(ic, r, text, p, s). length s)") auto

definition finditer :: "bool \<Rightarrow> regex \<Rightarrow> string \<Rightarrow> Match list" where
  "finditer ic r text = finditer_from ic r text None text"

text \<open>\<open>re.sub(pattern, repl, text)\<close> for a replacement without group references.\<close>

function sub_from :: "bool \<Rightarrow> regex \<Rightarrow> string \<Rightarrow> char option \<Rightarrow> string \<Rightarrow> string" where
  "sub_from ic r repl p s =
     (case matches ic r (p, s, \<lambda>_. None) of
        [] \<Rightarrow> (case s of [] \<Rightarrow> [] | c # cs \<Rightarrow> c # sub_from ic r repl (Some c) cs)
      | (p', s', g) # _ \<Rightarrow>
          repl @
          (if length s' < length s then sub_from ic r repl p' s'
           else (case s of [] \<Rightarrow> [] | c # cs \<Rightarrow> c # sub_from ic r repl (Some c) cs)))"
  by pat_completeness auto
termination
  by (relation "measure (\<lambda>(ic, r, repl, p, s). length s)") auto

definition re_sub :: "bool \<Rightarrow> regex \<Rightarrow> string \<Rightarrow> string \<Rightarrow> string" where
  "re_sub ic r repl text = sub_from ic r repl None text"

text \<open>Building patterns.\<close>

fun seqs :: "regex list \<Rightarrow> regex" where
  "seqs [] = Eps"
| "seqs [r] = r"
| "seqs (r # rs) = Seq r (seqs rs)"

fun alts :: "regex list \<Rightarrow> regex" where
  "alts [] = Eps"
| "alts [r] = r"
| "alts (r # rs) = Alt r (alts rs)"

definition lit :: "string \<Rightarrow> regex" where
  "lit s = seqs (map (\<lambda>c. Atom (Lit c)) s)"

section \<open>The data model\<close>

datatype SymbolKind =
    PROGRAM | PROCEDURE | FUNCTION | TASK | COMPOOL | VARIABLE | CONSTANT
  | STRUCTURE | LABEL | PARAMETER | REPLACE

fun kind_value :: "SymbolKind \<Rightarrow> string" where
  "kind_value PROGRAM = ''program''"
| "kind_value PROCEDURE = ''procedure''"
| "kind_value FUNCTION = ''function''"
| "kind_value TASK = ''task''"
| "kind_value COMPOOL = ''compool''"
| "kind_value VARIABLE = ''variable''"
| "kind_value CONSTANT = ''constant''"
| "kind_value STRUCTURE = ''structure''"
| "kind_value LABEL = ''label''"
| "kind_value PARAMETER = ''parameter''"
| "kind_value REPLACE = ''replace''"

record Symbol =
  name :: string
  kind :: SymbolKind
  data_type :: string
  line :: nat
  column :: nat
  end_line :: nat
  end_column :: nat
  scope :: string
  documentation :: string
  parameters :: "string list"
  dimensions :: "string list"

text \<open>The constructor call \<open>Symbol(name=..., kind=..., data_type=..., line=..., column=...)\<close>
  with the defaults of the dataclass.\<close>

definition new_symbol :: "string \<Rightarrow> SymbolKind \<Rightarrow> string \<Rightarrow> nat \<Rightarrow> nat \<Rightarrow> Symbol" where
  "new_symbol n k t l c =
     \<lparr>name = n, kind = k, data_type = t, line = l, column = c, end_line = 0, end_column = 0,
      scope = ''global'', documentation = [], parameters = [], dimensions = []\<rparr>"

record Reference =
  ref_name :: string
  ref_line :: nat
  ref_column :: nat
  ref_end_column :: nat
  ref_context :: string

record Diagnostic =
  diag_line :: nat
  diag_column :: nat
  diag_end_column :: nat
  message :: string
  severity :: string

text \<open>
  The symbol table is a Python \<open>dict\<close>: it keeps its keys in the order of their first
  insertion, and an assignment to a key already present replaces the value where it stands.
\<close>

type_synonym 'v dict = "(string \<times> 'v) list"

fun dict_set :: "'v dict \<Rightarrow> string \<Rightarrow> 'v \<Rightarrow> 'v dict" where
  "dict_set [] k v = [(k, v)]"
| "dict_set ((k', v') # d) k v = (if k' = k then (k, v) # d else (k', v') # dict_set d k v)"

definition dict_get :: "'v dict \<Rightarrow> string \<Rightarrow> 'v option" where
  "dict_get d k = map_of d k"

definition dict_has :: "'v dict \<Rightarrow> string \<Rightarrow> bool" where
  "dict_has d k = (map_of d k \<noteq> None)"

record HALSParser =
  symbols :: "Symbol dict"
  references :: "Reference list"
  diagnostics :: "Diagnostic list"
  lines :: "string list"
  current_scope :: string
  scope_stack :: "string list"

text \<open>What a method can raise: reading an attribute of \<open>None\<close>, indexing a list out of range.\<close>

datatype error = AttributeError | IndexError

fun for_each :: "('a \<Rightarrow> 's \<Rightarrow> error + 's) \<Rightarrow> 'a list \<Rightarrow> 's \<Rightarrow> error + 's" where
  "for_each f [] s = Inr s"
| "for_each f (x # xs) s = (case f x s of Inl e \<Rightarrow> Inl e | Inr s' \<Rightarrow> for_each f xs s')"

definition run :: "('s \<Rightarrow> error + 's) list \<Rightarrow> 's \<Rightarrow> error + 's" where
  "run fs s = for_each (\<lambda>f. f) fs s"

definition KEYWORDS :: "string list" where
  "KEYWORDS =
    [''PROGRAM'', ''PROCEDURE'', ''FUNCTION'', ''TASK'', ''COMPOOL'', ''UPDATE'',
     ''CLOSE'', ''RETURN'',
     ''DECLARE'', ''CONSTANT'', ''INITIAL'', ''STATIC'', ''AUTOMATIC'',
     ''TEMPORARY'', ''DENSE'', ''ALIGNED'', ''RIGID'', ''REMOTE'', ''ACCESS'',
     ''ASSIGN'', ''NAME'', ''LOCK'', ''EXCLUSIVE'', ''LATCHED'', ''REPLACE'',
     ''STRUCTURE'', ''ARRAY'',
     ''INTEGER'', ''SCALAR'', ''VECTOR'', ''MATRIX'', ''BOOLEAN'', ''CHARACTER'',
     ''BIT'', ''EVENT'', ''SINGLE'', ''DOUBLE'',
     ''IF'', ''THEN'', ''ELSE'', ''DO'', ''END'', ''FOR'', ''TO'', ''BY'', ''WHILE'',
     ''UNTIL'', ''REPEAT'', ''EXIT'', ''GO'', ''GOTO'', ''CASE'',
     ''SCHEDULE'', ''WAIT'', ''SIGNAL'', ''PRIORITY'', ''TERMINATE'', ''CANCEL'',
     ''SET'', ''RESET'', ''ON'', ''OFF'', ''ERROR'', ''DEPENDENT'', ''IGNORE'',
     ''READ'', ''READALL'', ''WRITE'', ''FILE'',
     ''NOT'', ''AND'', ''OR'', ''CAT'', ''MOD'', ''TRUE'', ''FALSE'',
     ''ABS'', ''CEILING'', ''FLOOR'', ''TRUNCATE'', ''ROUND'', ''ODD'', ''SIGN'',
     ''MAX'', ''MIN'', ''SUM'', ''PROD'', ''SHL'', ''SHR'', ''SIZE'', ''LENGTH'',
     ''INDEX'', ''MIDVAL'', ''RANDOM'', ''RANDOMG'', ''DATE'', ''RUNTIME'',
     ''CLOCKTIME'', ''PRIO'', ''NEXTIME'',
     ''SIN'', ''COS'', ''TAN'', ''ARCSIN'', ''ARCCOS'', ''ARCTAN'', ''ARCTAN2'',
     ''SINH'', ''COSH'', ''TANH'', ''EXP'', ''LOG'', ''SQRT'',
     ''TRANSPOSE'', ''TRACE'', ''DET'', ''INVERSE'', ''IDENTITY'',
     ''UNIT'', ''ABVAL'', ''DOT'', ''CROSS'']"

definition is_keyword :: "string \<Rightarrow> bool" where
  "is_keyword w = (w \<in> set KEYWORDS)"

section \<open>The preprocessor\<close>

text \<open>One turn of the loop of \<open>_preprocess_multiline\<close> on a line, given the lines kept so far.\<close>

definition preprocess_line :: "string \<Rightarrow> string list \<Rightarrow> string list" where
  "preprocess_line ln result_lines =
     (case ln of
        [] \<Rightarrow> result_lines @ [ln]
      | c # rest \<Rightarrow>
          (let first_char = upper_char c in
           if first_char = ''E'' \<or> first_char = ''S'' then result_lines
           else if first_char = ''M'' then
             result_lines @ [if length ln > 1 then drop 1 ln else []]
           else if first_char = ''C'' then result_lines @ [''/*'' @ drop 1 ln @ ''*/'']
           else result_lines @ [ln]))"

definition preprocess_multiline :: "string \<Rightarrow> string" where
  "preprocess_multiline text =
     join newline (foldl (\<lambda>result_lines ln. preprocess_line ln result_lines) []
       (split newline text))"

text \<open>The pattern \<open>/\*.*?\*/\<close>, used with \<open>re.DOTALL\<close>.\<close>

definition comment_pattern :: regex where
  "comment_pattern = seqs [lit ''/*'', LazyStar DotAll, lit ''*/'']"

definition remove_comments :: "string \<Rightarrow> string" where
  "remove_comments text = re_sub False comment_pattern [] text"

definition find_position :: "string \<Rightarrow> nat \<Rightarrow> nat \<times> nat" where
  "find_position text match_start =
     (let ln = count_list (take match_start text) newline;
          last_newline = rfind newline text match_start;
          col = (case last_newline of Some i \<Rightarrow> match_start - i - 1 | None \<Rightarrow> match_start)
      in (ln, col))"

section \<open>The declaration extractor\<close>

text \<open>The parts the patterns share: \<open>([A-Z_][A-Z0-9_]*)\<close>, \<open>\s*\<close>, \<open>\s+\<close>, one character.\<close>

definition ident :: "nat \<Rightarrow> regex" where
  "ident k =
     Grp k (Seq (Atom (CSet [Range CHR ''A'' CHR ''Z'', Ch CHR ''_'']))
                (Star (CSet [Range CHR ''A'' CHR ''Z'', Range CHR ''0'' CHR ''9'', Ch CHR ''_''])))"

definition ws0 :: regex where
  "ws0 = Star WS"

definition ws1 :: regex where
  "ws1 = Plus WS"

definition ch :: "char \<Rightarrow> regex" where
  "ch c = Atom (Lit c)"

text \<open>\<open>(?:\(([^)]*)\))?\<close> with the inner group numbered \<open>k\<close>.\<close>

definition opt_params :: "nat \<Rightarrow> regex" where
  "opt_params k = Opt (seqs [ch CHR ''('', Grp k (Star (NegSet [Ch CHR '')''])), ch CHR '')''])"

definition program_pattern :: regex where
  "program_pattern =
     seqs [WordB, ident 1, ws0, ch CHR '':'', ws0, lit ''PROGRAM'', ws0, ch CHR '';'']"

definition procedure_pattern :: regex where
  "procedure_pattern =
     seqs [WordB, ident 1, ws0, ch CHR '':'', ws0, lit ''PROCEDURE'', ws0, opt_params 2,
           ws0, ch CHR '';'']"

definition function_pattern :: regex where
  "function_pattern =
     seqs [WordB, ident 1, ws0, ch CHR '':'', ws0,
           Opt (Grp 2 (alts [lit ''INTEGER'', lit ''SCALAR'', lit ''VECTOR'', lit ''MATRIX'',
                             lit ''BOOLEAN'', lit ''CHARACTER'', lit ''BIT''])),
           ws0, lit ''FUNCTION'', ws0, opt_params 3, ws0, ch CHR '';'']"

definition task_pattern :: regex where
  "task_pattern =
     seqs [WordB, ident 1, ws0, ch CHR '':'', ws0, lit ''TASK'', ws0, ch CHR '';'']"

definition compool_pattern :: regex where
  "compool_pattern =
     seqs [WordB, ident 1, ws0, ch CHR '':'', ws0, lit ''COMPOOL'', ws0, ch CHR '';'']"

definition simple_declare_pattern :: regex where
  "simple_declare_pattern =
     seqs [WordB, lit ''DECLARE'', ws1, ident 1, ws1,
           Grp 2 (alts [lit ''INTEGER'', lit ''SCALAR'', lit ''VECTOR'', lit ''MATRIX'',
                        lit ''BOOLEAN'', lit ''CHARACTER'', lit ''BIT'', lit ''EVENT'']),
           ws0,
           Opt (seqs [lit ''INITIAL'', ws0, ch CHR ''('', Star (NegSet [Ch CHR '')'']),
                      ch CHR '')'']),
           ws0, ch CHR '';'']"

definition array_declare_pattern :: regex where
  "array_declare_pattern =
     seqs [WordB, lit ''DECLARE'', ws1, ident 1, ws1, lit ''ARRAY'', ws0, ch CHR ''('',
           Grp 2 (Plus (NegSet [Ch CHR '')''])), ch CHR '')'', ws1,
           Grp 3 (alts [lit ''INTEGER'', lit ''SCALAR'', lit ''VECTOR'', lit ''MATRIX'',
                        lit ''BOOLEAN'', lit ''CHARACTER'', lit ''BIT'']),
           ws0, ch CHR '';'']"

definition constant_declare_pattern :: regex where
  "constant_declare_pattern =
     seqs [WordB, lit ''DECLARE'', ws1, ident 1, ws1, lit ''CONSTANT'', ws0, ch CHR ''('',
           Grp 2 (Plus (NegSet [Ch CHR '')''])), ch CHR '')'', ws0, ch CHR '';'']"

definition vector_declare_pattern :: regex where
  "vector_declare_pattern =
     seqs [WordB, lit ''DECLARE'', ws1, ident 1, ws1, lit ''VECTOR'', ws0, ch CHR ''('',
           Grp 2 (Plus Digit), ch CHR '')'', ws0, ch CHR '';'']"

definition matrix_declare_pattern :: regex where
  "matrix_declare_pattern =
     seqs [WordB, lit ''DECLARE'', ws1, ident 1, ws1, lit ''MATRIX'', ws0, ch CHR ''('',
           Grp 2 (Plus Digit), ws0, ch CHR '','', ws0, Grp 3 (Plus Digit), ch CHR '')'',
           ws0, ch CHR '';'']"

definition structure_pattern :: regex where
  "structure_pattern =
     seqs [WordB, lit ''DECLARE'', ws1, ident 1, ws1, lit ''STRUCTURE'', ws0, ch CHR '';'']"

definition replace_pattern :: regex where
  "replace_pattern =
     seqs [WordB, lit ''REPLACE'', ws1, ident 1, ws1, lit ''BY'', ws1, ch CHR 0x22,
           Grp 2 (Plus (NegSet [Ch CHR 0x22])), ch CHR 0x22, ws0, ch CHR '';'']"

definition label_pattern :: regex where
  "label_pattern = seqs [WordB, ident 1, ws0, ch CHR '':'']"

definition reference_pattern :: regex where
  "reference_pattern = seqs [WordB, ident 1, WordB]"

text \<open>
  Reading a group the match left unset gives \<open>None\<close>, and the parser then fails on the
  first method call on it; the model raises \<open>AttributeError\<close> wherever the source uses the
  value of such a group.
\<close>

definition set_symbol :: "HALSParser \<Rightarrow> string \<Rightarrow> Symbol \<Rightarrow> HALSParser" where
  "set_symbol P k v = P\<lparr>symbols := dict_set (symbols P) k v\<rparr>"

text \<open>\<open>[p.strip() for p in s.split(',')]\<close>\<close>

definition split_strip :: "string \<Rightarrow> string list" where
  "split_strip s = map strip (split CHR '','' s)"

definition program_entry :: "string \<Rightarrow> Match \<Rightarrow> HALSParser \<Rightarrow> error + HALSParser" where
  "program_entry text m P =
     (case mgroup m 1 of
        None \<Rightarrow> Inl AttributeError
      | Some nm \<Rightarrow>
          (let (ln, col) = find_position text (mstart m) in
           Inr (set_symbol P (upper nm)
                  ((new_symbol (upper nm) PROGRAM ''PROGRAM'' ln col)
                     \<lparr>documentation := ''HAL/S Program unit''\<rparr>))))"

definition parse_programs :: "string \<Rightarrow> HALSParser \<Rightarrow> error + HALSParser" where
  "parse_programs text P = for_each (program_entry text) (finditer True program_pattern text) P"

definition procedure_entry :: "string \<Rightarrow> Match \<Rightarrow> HALSParser \<Rightarrow> error + HALSParser" where
  "procedure_entry text m P =
     (case mgroup m 1 of
        None \<Rightarrow> Inl AttributeError
      | Some nm \<Rightarrow>
          (let params_text = mgroup m 2;
               (ln, col) = find_position text (mstart m);
               params = (case params_text of None \<Rightarrow> []
                         | Some t \<Rightarrow> if t = [] then [] else split_strip t)
           in Inr (set_symbol P (upper nm)
                  ((new_symbol (upper nm) PROCEDURE ''PROCEDURE'' ln col)
                     \<lparr>parameters := params,
                      documentation :=
                        (if params \<noteq> []
                         then ''Procedure with '' @ str_nat (length params) @ '' parameters''
                         else ''Procedure'')\<rparr>))))"

definition parse_procedures :: "string \<Rightarrow> HALSParser \<Rightarrow> error + HALSParser" where
  "parse_procedures text P =
     for_each (procedure_entry text) (finditer True procedure_pattern text) P"

definition function_entry :: "string \<Rightarrow> Match \<Rightarrow> HALSParser \<Rightarrow> error + HALSParser" where
  "function_entry text m P =
     (case mgroup m 1 of
        None \<Rightarrow> Inl AttributeError
      | Some nm \<Rightarrow>
          (let return_type = (case mgroup m 2 of None \<Rightarrow> ''SCALAR''
                              | Some t \<Rightarrow> if t = [] then ''SCALAR'' else t);
               params_text = mgroup m 3;
               (ln, col) = find_position text (mstart m);
               params = (case params_text of None \<Rightarrow> []
                         | Some t \<Rightarrow> if t = [] then [] else split_strip t)
           in Inr (set_symbol P (upper nm)
                  ((new_symbol (upper nm) FUNCTION (upper return_type @ '' FUNCTION'') ln col)
                     \<lparr>parameters := params,
                      documentation := ''Function returning '' @ upper return_type\<rparr>))))"

definition parse_functions :: "string \<Rightarrow> HALSParser \<Rightarrow> error + HALSParser" where
  "parse_functions text P =
     for_each (function_entry text) (finditer True function_pattern text) P"

definition task_entry :: "string \<Rightarrow> Match \<Rightarrow> HALSParser \<Rightarrow> error + HALSParser" where
  "task_entry text m P =
     (case mgroup m 1 of
        None \<Rightarrow> Inl AttributeError
      | Some nm \<Rightarrow>
          (let (ln, col) = find_position text (mstart m) in
           Inr (set_symbol P (upper nm)
                  ((new_symbol (upper nm) TASK ''TASK'' ln col)
                     \<lparr>documentation := ''Real-time task (schedulable process)''\<rparr>))))"

definition parse_tasks :: "string \<Rightarrow> HALSParser \<Rightarrow> error + HALSParser" where
  "parse_tasks text P = for_each (task_entry text) (finditer True task_pattern text) P"

definition compool_entry :: "string \<Rightarrow> Match \<Rightarrow> HALSParser \<Rightarrow> error + HALSParser" where
  "compool_entry text m P =
     (case mgroup m 1 of
        None \<Rightarrow> Inl AttributeError
      | Some nm \<Rightarrow>
          (let (ln, col) = find_position text (mstart m) in
           Inr (set_symbol P (upper nm)
                  ((new_symbol (upper nm) COMPOOL ''COMPOOL'' ln col)
                     \<lparr>documentation := ''Communication pool (shared data)''\<rparr>))))"

definition parse_compools :: "string \<Rightarrow> HALSParser \<Rightarrow> error + HALSParser" where
  "parse_compools text P = for_each (compool_entry text) (finditer True compool_pattern text) P"

text \<open>The five loops of \<open>_parse_declares\<close>, in the order of the source.\<close>

definition simple_declare_entry :: "string \<Rightarrow> Match \<Rightarrow> HALSParser \<Rightarrow> error + HALSParser" where
  "simple_declare_entry text m P =
     (case mgroup m 2 of
        None \<Rightarrow> Inl AttributeError
      | Some t \<Rightarrow>
          (case mgroup m 1 of
             None \<Rightarrow> Inl AttributeError
           | Some nm \<Rightarrow>
               (let dt = upper t; (ln, col) = find_position text (mstart m) in
                Inr (set_symbol P (upper nm)
                       ((new_symbol (upper nm) VARIABLE dt ln col)
                          \<lparr>documentation := dt @ '' variable''\<rparr>)))))"

definition array_declare_entry :: "string \<Rightarrow> Match \<Rightarrow> HALSParser \<Rightarrow> error + HALSParser" where
  "array_declare_entry text m P =
     (case mgroup m 3 of
        None \<Rightarrow> Inl AttributeError
      | Some t \<Rightarrow>
          (case mgroup m 1 of
             None \<Rightarrow> Inl AttributeError
           | Some nm \<Rightarrow>
               (case mgroup m 2 of
                  None \<Rightarrow> Inl AttributeError
                | Some dims \<Rightarrow>
                    (let dt = upper t; (ln, col) = find_position text (mstart m) in
                     Inr (set_symbol P (upper nm)
                            ((new_symbol (upper nm) VARIABLE
                                (''ARRAY('' @ dims @ '') '' @ dt) ln col)
                               \<lparr>dimensions := split_strip dims,
                                documentation :=
                                  ''Array of '' @ dt @ '' with dimensions ('' @ dims @ '')''\<rparr>))))))"

definition constant_declare_entry :: "string \<Rightarrow> Match \<Rightarrow> HALSParser \<Rightarrow> error + HALSParser" where
  "constant_declare_entry text m P =
     (case mgroup m 1 of
        None \<Rightarrow> Inl AttributeError
      | Some nm \<Rightarrow>
          (case mgroup m 2 of
             None \<Rightarrow> Inl AttributeError
           | Some v \<Rightarrow>
               (let (ln, col) = find_position text (mstart m) in
                Inr (set_symbol P (upper nm)
                       ((new_symbol (upper nm) CONSTANT ''CONSTANT'' ln col)
                          \<lparr>documentation := ''Constant = '' @ v\<rparr>)))))"

definition vector_declare_entry :: "string \<Rightarrow> Match \<Rightarrow> HALSParser \<Rightarrow> error + HALSParser" where
  "vector_declare_entry text m P =
     (case mgroup m 1 of
        None \<Rightarrow> Inl AttributeError
      | Some nm \<Rightarrow>
          (case mgroup m 2 of
             None \<Rightarrow> Inl AttributeError
           | Some sz \<Rightarrow>
               (let (ln, col) = find_position text (mstart m) in
                Inr (set_symbol P (upper nm)
                       ((new_symbol (upper nm) VARIABLE (''VECTOR('' @ sz @ '')'') ln col)
                          \<lparr>dimensions := [sz],
                           documentation := ''Vector of '' @ sz @ '' elements''\<rparr>)))))"

definition matrix_declare_entry :: "string \<Rightarrow> Match \<Rightarrow> HALSParser \<Rightarrow> error + HALSParser" where
  "matrix_declare_entry text m P =
     (case mgroup m 1 of
        None \<Rightarrow> Inl AttributeError
      | Some nm \<Rightarrow>
          (case mgroup m 2 of
             None \<Rightarrow> Inl AttributeError
           | Some rows \<Rightarrow>
               (case mgroup m 3 of
                  None \<Rightarrow> Inl AttributeError
                | Some cols \<Rightarrow>
                    (let (ln, col) = find_position text (mstart m) in
                     Inr (set_symbol P (upper nm)
                            ((new_symbol (upper nm) VARIABLE
                                (''MATRIX('' @ rows @ '','' @ cols @ '')'') ln col)
                               \<lparr>dimensions := [rows, cols],
                                documentation :=
                                  ''Matrix of '' @ rows @ ''x'' @ cols @ '' elements''\<rparr>))))))"

definition parse_simple_declares :: "string \<Rightarrow> HALSParser \<Rightarrow> error + HALSParser" where
  "parse_simple_declares text P =
     for_each (simple_declare_entry text) (finditer True simple_declare_pattern text) P"

definition parse_array_declares :: "string \<Rightarrow> HALSParser \<Rightarrow> error + HALSParser" where
  "parse_array_declares text P =
     for_each (array_declare_entry text) (finditer True array_declare_pattern text) P"

definition parse_constant_declares :: "string \<Rightarrow> HALSParser \<Rightarrow> error + HALSParser" where
  "parse_constant_declares text P =
     for_each (constant_declare_entry text) (finditer True constant_declare_pattern text) P"

definition parse_vector_declares :: "string \<Rightarrow> HALSParser \<Rightarrow> error + HALSParser" where
  "parse_vector_declares text P =
     for_each (vector_declare_entry text) (finditer True vector_declare_pattern text) P"

definition parse_matrix_declares :: "string \<Rightarrow> HALSParser \<Rightarrow> error + HALSParser" where
  "parse_matrix_declares text P =
     for_each (matrix_declare_entry text) (finditer True matrix_declare_pattern text) P"

definition parse_declares :: "string \<Rightarrow> HALSParser \<Rightarrow> error + HALSParser" where
  "parse_declares text P =
     run [parse_simple_declares text, parse_array_declares text, parse_constant_declares text,
          parse_vector_declares text, parse_matrix_declares text] P"

definition structure_entry :: "string \<Rightarrow> Match \<Rightarrow> HALSParser \<Rightarrow> error + HALSParser" where
  "structure_entry text m P =
     (case mgroup m 1 of
        None \<Rightarrow> Inl AttributeError
      | Some nm \<Rightarrow>
          (let (ln, col) = find_position text (mstart m) in
           Inr (set_symbol P (upper nm)
                  ((new_symbol (upper nm) STRUCTURE ''STRUCTURE'' ln col)
                     \<lparr>documentation := ''Structure type''\<rparr>))))"

definition parse_structures :: "string \<Rightarrow> HALSParser \<Rightarrow> error + HALSParser" where
  "parse_structures text P =
     for_each (structure_entry text) (finditer True structure_pattern text) P"

definition replace_entry :: "string \<Rightarrow> Match \<Rightarrow> HALSParser \<Rightarrow> error + HALSParser" where
  "replace_entry text m P =
     (case mgroup m 1 of
        None \<Rightarrow> Inl AttributeError
      | Some nm \<Rightarrow>
          (case mgroup m 2 of
             None \<Rightarrow> Inl AttributeError
           | Some replacement \<Rightarrow>
               (let (ln, col) = find_position text (mstart m) in
                Inr (set_symbol P (upper nm)
                       ((new_symbol (upper nm) REPLACE ''REPLACE'' ln col)
                          \<lparr>documentation := ''Macro expanding to: '' @ replacement\<rparr>)))))"

definition parse_replaces :: "string \<Rightarrow> HALSParser \<Rightarrow> error + HALSParser" where
  "parse_replaces text P = for_each (replace_entry text) (finditer True replace_pattern text) P"

definition unit_keywords :: "string list" where
  "unit_keywords = [''PROGRAM'', ''PROCEDURE'', ''FUNCTION'', ''TASK'', ''COMPOOL'']"

definition label_entry :: "string \<Rightarrow> Match \<Rightarrow> HALSParser \<Rightarrow> error + HALSParser" where
  "label_entry text m P =
     (let after = upper (strip (slice text (mend m) (mend m + 20))) in
      if list_ex (startswith after) unit_keywords then Inr P
      else
        (case mgroup m 1 of
           None \<Rightarrow> Inl AttributeError
         | Some nm \<Rightarrow>
             if dict_has (symbols P) (upper nm) then Inr P
             else
               (let (ln, col) = find_position text (mstart m) in
                Inr (set_symbol P (upper nm)
                       ((new_symbol (upper nm) LABEL ''LABEL'' ln col)
                          \<lparr>documentation := ''Statement label (GO TO target)''\<rparr>)))))"

definition parse_labels :: "string \<Rightarrow> HALSParser \<Rightarrow> error + HALSParser" where
  "parse_labels text P = for_each (label_entry text) (finditer True label_pattern text) P"

section \<open>The reference collector\<close>

definition reference_entry :: "string \<Rightarrow> Match \<Rightarrow> HALSParser \<Rightarrow> error + HALSParser" where
  "reference_entry text m P =
     (case mgroup m 1 of
        None \<Rightarrow> Inl AttributeError
      | Some nm \<Rightarrow>
          if is_keyword (upper nm) then Inr P
          else
            (let (ln, col) = find_position text (mstart m) in
             Inr (P\<lparr>references := references P @
                      [\<lparr>ref_name = upper nm, ref_line = ln, ref_column = col,
                        ref_end_column = col + length nm, ref_context = []\<rparr>]\<rparr>)))"

definition parse_references :: "string \<Rightarrow> HALSParser \<Rightarrow> error + HALSParser" where
  "parse_references text P =
     for_each (reference_entry text) (finditer True reference_pattern text) P"

section \<open>The parse operation\<close>

text \<open>The extraction passes in the order in which \<open>parse\<close> calls them.\<close>

definition extraction_passes :: "string \<Rightarrow> (HALSParser \<Rightarrow> error + HALSParser) list" where
  "extraction_passes text =
     [parse_programs text, parse_procedures text, parse_functions text, parse_tasks text,
      parse_compools text, parse_declares text, parse_structures text, parse_replaces text,
      parse_labels text]"

definition cleaned :: "string \<Rightarrow> string" where
  "cleaned text = remove_comments (preprocess_multiline text)"

definition reset :: "HALSParser \<Rightarrow> string \<Rightarrow> HALSParser" where
  "reset P text =
     P\<lparr>symbols := [], references := [], diagnostics := [], lines := split newline text,
       current_scope := ''global'', scope_stack := [''global'']\<rparr>"

definition parse :: "HALSParser \<Rightarrow> string \<Rightarrow> error + HALSParser" where
  "parse P text =
     (let P0 = reset P text;
          processed_text = preprocess_multiline text;
          cleaned_text = remove_comments processed_text
      in run (extraction_passes cleaned_text @ [parse_references cleaned_text]) P0)"

text \<open>The parser as \<open>__init__\<close> leaves it.\<close>

definition init :: HALSParser where
  "init = \<lparr>symbols = [], references = [], diagnostics = [], lines = [],
           current_scope = ''global'', scope_stack = [''global'']\<rparr>"

section \<open>The query engine\<close>

text \<open>
  A cursor is a pair of Python integers. \<open>xs[i]\<close> counts a negative index from the end of the
  list and raises \<open>IndexError\<close> outside \<open>-len(xs) \<le> i < len(xs)\<close>.
\<close>

definition py_index :: "'a list \<Rightarrow> int \<Rightarrow> error + 'a" where
  "py_index xs i =
     (let n = int (length xs) in
      if 0 \<le> i \<and> i < n then Inr (xs ! nat i)
      else if - n \<le> i \<and> i < 0 then Inr (xs ! nat (n + i))
      else Inl IndexError)"

text \<open>The test \<open>match.start() <= column <= match.end()\<close>.\<close>

definition under_cursor :: "Match \<Rightarrow> int \<Rightarrow> bool" where
  "under_cursor m col = (int (mstart m) \<le> col \<and> col \<le> int (mend m))"

definition keyword_banner :: "string \<Rightarrow> string" where
  "keyword_banner word = ''**'' @ word @ ''**'' @ [newline, newline] @ ''HAL/S keyword''"

definition symbol_banner :: "Symbol \<Rightarrow> string" where
  "symbol_banner smb =
     ''**'' @ name smb @ ''**: '' @ data_type smb @ [newline, newline] @ documentation smb"

fun hover_scan :: "HALSParser \<Rightarrow> int \<Rightarrow> Match list \<Rightarrow> error + string option" where
  "hover_scan P col [] = Inr None"
| "hover_scan P col (m # ms) =
     (if under_cursor m col then
        (case mgroup m 1 of
           None \<Rightarrow> Inl AttributeError
         | Some w \<Rightarrow>
             (let word = upper w in
              if is_keyword word then Inr (Some (keyword_banner word))
              else (case dict_get (symbols P) word of
                      Some smb \<Rightarrow> Inr (Some (symbol_banner smb))
                    | None \<Rightarrow> Inr None)))
      else hover_scan P col ms)"

text \<open>The result of \<open>get_hover\<close> is the \<open>contents\<close> entry of the dictionary it returns.\<close>

definition get_hover :: "HALSParser \<Rightarrow> int \<Rightarrow> int \<Rightarrow> error + string option" where
  "get_hover P ln col =
     (if ln \<ge> int (length (lines P)) then Inr None
      else (case py_index (lines P) ln of
              Inl e \<Rightarrow> Inl e
            | Inr line_text \<Rightarrow> hover_scan P col (finditer True reference_pattern line_text)))"

record Location =
  loc_line :: nat
  loc_column :: nat
  loc_name :: string

fun definition_scan :: "HALSParser \<Rightarrow> int \<Rightarrow> Match list \<Rightarrow> error + Location option" where
  "definition_scan P col [] = Inr None"
| "definition_scan P col (m # ms) =
     (if under_cursor m col then
        (case mgroup m 1 of
           None \<Rightarrow> Inl AttributeError
         | Some w \<Rightarrow>
             (case dict_get (symbols P) (upper w) of
                Some smb \<Rightarrow>
                  Inr (Some \<lparr>loc_line = line smb, loc_column = column smb, loc_name = name smb\<rparr>)
              | None \<Rightarrow> Inr None))
      else definition_scan P col ms)"

definition get_definition :: "HALSParser \<Rightarrow> int \<Rightarrow> int \<Rightarrow> error + Location option" where
  "get_definition P ln col =
     (if ln \<ge> int (length (lines P)) then Inr None
      else (case py_index (lines P) ln of
              Inl e \<Rightarrow> Inl e
            | Inr line_text \<Rightarrow>
                definition_scan P col (finditer True reference_pattern line_text)))"

text \<open>The first loop of \<open>get_references_at\<close>: the word under the cursor, if there is one.\<close>

fun target_scan :: "int \<Rightarrow> Match list \<Rightarrow> error + string option" where
  "target_scan col [] = Inr None"
| "target_scan col (m # ms) =
     (if under_cursor m col then
        (case mgroup m 1 of None \<Rightarrow> Inl AttributeError | Some w \<Rightarrow> Inr (Some (upper w)))
      else target_scan col ms)"

record Span =
  span_line :: nat
  span_column :: nat
  span_end_column :: nat

definition get_references_at :: "HALSParser \<Rightarrow> int \<Rightarrow> int \<Rightarrow> error + Span list" where
  "get_references_at P ln col =
     (if ln \<ge> int (length (lines P)) then Inr []
      else (case py_index (lines P) ln of
              Inl e \<Rightarrow> Inl e
            | Inr line_text \<Rightarrow>
                (case target_scan col (finditer True reference_pattern line_text) of
                   Inl e \<Rightarrow> Inl e
                 | Inr None \<Rightarrow> Inr []
                 | Inr (Some target_word) \<Rightarrow>
                     if target_word = [] then Inr []
                     else Inr (map (\<lambda>r. \<lparr>span_line = ref_line r, span_column = ref_column r,
                                          span_end_column = ref_end_column r\<rparr>)
                                 (filter (\<lambda>r. ref_name r = target_word) (references P))))))"

record DocumentSymbol =
  ds_name :: string
  ds_kind :: string
  ds_detail :: string
  ds_line :: nat
  ds_column :: nat

text \<open>The dictionary \<open>get_document_symbols\<close> builds for a symbol.\<close>

definition outline_entry :: "Symbol \<Rightarrow> DocumentSymbol" where
  "outline_entry smb =
     \<lparr>ds_name = name smb, ds_kind = kind_value (kind smb), ds_detail = data_type smb,
      ds_line = line smb, ds_column = column smb\<rparr>"

text \<open>\<open>sorted(symbols, key=lambda x: x['line'])\<close> is a stable sort, as \<open>sort_key\<close> is.\<close>

definition get_document_symbols :: "HALSParser \<Rightarrow> DocumentSymbol list" where
  "get_document_symbols P =
     sort_key ds_line (map (\<lambda>(nm, smb). outline_entry smb) (symbols P))"

definition get_diagnostics :: "HALSParser \<Rightarrow> Diagnostic list" where
  "get_diagnostics P = diagnostics P"

section \<open>What the passes write\<close>

text \<open>
  The groups a pattern has set whenever it matches: those on every path through the
  pattern.
\<close>

fun always :: "regex \<Rightarrow> nat set" where
  "always (Grp k r) = insert k (always r)"
| "always (Seq r1 r2) = always r1 \<union> always r2"
| "always (Alt r1 r2) = always r1 \<inter> always r2"
| "always r = {}"

text \<open>
  The table entries one turn of a pass loop writes for a match, read off the loop body
  itself by running it on the empty table; and the entries a whole pass writes, in the
  order of its matches.
\<close>

definition entry_writes :: "(Match \<Rightarrow> HALSParser \<Rightarrow> error + HALSParser) \<Rightarrow> Match \<Rightarrow> Symbol dict" where
  "entry_writes e m = (case e m init of Inl _ \<Rightarrow> [] | Inr P \<Rightarrow> symbols P)"

definition pass_writes ::
  "regex \<Rightarrow> (string \<Rightarrow> Match \<Rightarrow> HALSParser \<Rightarrow> error + HALSParser) \<Rightarrow> string \<Rightarrow> Symbol dict" where
  "pass_writes pat e text = concat (map (entry_writes (e text)) (finditer True pat text))"

text \<open>Assigning a list of entries in turn, and adding those whose key is not yet present.\<close>

definition apply_writes :: "HALSParser \<Rightarrow> Symbol dict \<Rightarrow> HALSParser" where
  "apply_writes P ws = foldl (\<lambda>P kv. set_symbol P (fst kv) (snd kv)) P ws"

definition add_absent :: "HALSParser \<Rightarrow> Symbol dict \<Rightarrow> HALSParser" where
  "add_absent P ws =
     foldl (\<lambda>P kv. if dict_has (symbols P) (fst kv) then P else set_symbol P (fst kv) (snd kv))
       P ws"

text \<open>
  The recognizer passes that overwrite, in the fixed order: program, procedure, function,
  task, compool, scalar declare, array declare, constant declare, vector declare, matrix
  declare, structure, replace. The label pass comes last.
\<close>

definition overwriting_passes ::
  "(regex \<times> (string \<Rightarrow> Match \<Rightarrow> HALSParser \<Rightarrow> error + HALSParser)) list" where
  "overwriting_passes =
     [(program_pattern, program_entry), (procedure_pattern, procedure_entry),
      (function_pattern, function_entry), (task_pattern, task_entry),
      (compool_pattern, compool_entry), (simple_declare_pattern, simple_declare_entry),
      (array_declare_pattern, array_declare_entry),
      (constant_declare_pattern, constant_declare_entry),
      (vector_declare_pattern, vector_declare_entry),
      (matrix_declare_pattern, matrix_declare_entry), (structure_pattern, structure_entry),
      (replace_pattern, replace_entry)]"

text \<open>
  Last write wins: the entry for a name from the last pass (of a list of passes' writes) that
  wrote the name, and there the last of that pass's writes.
\<close>

fun last_write :: "Symbol dict list \<Rightarrow> string \<Rightarrow> Symbol option" where
  "last_write [] n = None"
| "last_write (ws # rest) n =
     (case last_write rest n of Some v \<Rightarrow> Some v | None \<Rightarrow> map_of (rev ws) n)"

definition retained :: "string \<Rightarrow> string \<Rightarrow> Symbol option" where
  "retained text n =
     (case last_write (map (\<lambda>(pat, e). pass_writes pat e text) overwriting_passes) n of
        Some v \<Rightarrow> Some v
      | None \<Rightarrow> map_of (pass_writes label_pattern label_entry text) n)"

definition declared_writes :: "string \<Rightarrow> Symbol dict" where
  "declared_writes text = concat (map (\<lambda>(pat, e). pass_writes pat e text) overwriting_passes)"

definition label_writes :: "string \<Rightarrow> Symbol dict" where
  "label_writes text = pass_writes label_pattern label_entry text"

text \<open>The references one turn of the loop of \<open>_parse_references\<close> appends, and all of them.\<close>

definition entry_refs :: "(Match \<Rightarrow> HALSParser \<Rightarrow> error + HALSParser) \<Rightarrow> Match \<Rightarrow> Reference list" where
  "entry_refs e m = (case e m init of Inl _ \<Rightarrow> [] | Inr P \<Rightarrow> references P)"

definition collected_refs :: "string \<Rightarrow> Reference list" where
  "collected_refs text =
     concat (map (entry_refs (reference_entry text)) (finditer True reference_pattern text))"

section \<open>What the recognizers find\<close>

text \<open>
  The canonical name of a match is its first group in upper case. A recognizer finds, for
  each match of its pattern in the text, that name, the kind it records and the position of
  the start of the match.
\<close>

definition match_name :: "Match \<Rightarrow> string" where
  "match_name m = (case mgroup m 1 of None \<Rightarrow> [] | Some nm \<Rightarrow> upper nm)"

definition found :: "regex \<Rightarrow> SymbolKind \<Rightarrow> string \<Rightarrow> (string \<times> SymbolKind \<times> nat \<times> nat) list" where
  "found pat k text =
     map (\<lambda>m. (match_name m, k, find_position text (mstart m))) (finditer True pat text)"

text \<open>
  The twelve overwriting recognizers in the fixed order, each with its kind: program,
  procedure, function, task, compool, scalar declare, array declare, constant declare,
  vector declare, matrix declare, structure, replace.
\<close>

definition recognizers :: "(regex \<times> SymbolKind) list" where
  "recognizers =
     [(program_pattern, PROGRAM), (procedure_pattern, PROCEDURE), (function_pattern, FUNCTION),
      (task_pattern, TASK), (compool_pattern, COMPOOL), (simple_declare_pattern, VARIABLE),
      (array_declare_pattern, VARIABLE), (constant_declare_pattern, CONSTANT),
      (vector_declare_pattern, VARIABLE), (matrix_declare_pattern, VARIABLE),
      (structure_pattern, STRUCTURE), (replace_pattern, REPLACE)]"

text \<open>
  A match of the label pattern counts as a label when the twenty characters after it,
  stripped and in upper case, do not begin with a unit keyword.
\<close>

definition label_candidate :: "string \<Rightarrow> Match \<Rightarrow> bool" where
  "label_candidate text m =
     (\<not> list_ex (startswith (upper (strip (slice text (mend m) (mend m + 20))))) unit_keywords)"

definition found_labels :: "string \<Rightarrow> (string \<times> SymbolKind \<times> nat \<times> nat) list" where
  "found_labels text =
     map (\<lambda>m. (match_name m, LABEL, find_position text (mstart m)))
       (filter (label_candidate text) (finditer True label_pattern text))"

text \<open>
  The match that is retained for a name: the last match of the last recognizer, in the fixed
  order, that finds the name; and when none of the twelve finds it, the first label found.
\<close>

fun last_found ::
  "(string \<times> SymbolKind \<times> nat \<times> nat) list list \<Rightarrow> string \<Rightarrow> (SymbolKind \<times> nat \<times> nat) option" where
  "last_found [] n = None"
| "last_found (fs # rest) n =
     (case last_found rest n of Some v \<Rightarrow> Some v | None \<Rightarrow> map_of (rev fs) n)"

definition retained_match :: "string \<Rightarrow> string \<Rightarrow> (SymbolKind \<times> nat \<times> nat) option" where
  "retained_match text n =
     (case last_found (map (\<lambda>(pat, k). found pat k text) recognizers) n of
        Some v \<Rightarrow> Some v
      | None \<Rightarrow> map_of (found_labels text) n)"

text \<open>The kind and position a table entry records, and whether it is named by its key.\<close>

definition digest :: "string \<times> Symbol \<Rightarrow> string \<times> SymbolKind \<times> nat \<times> nat" where
  "digest kv = (fst kv, kind (snd kv), line (snd kv), column (snd kv))"

definition named :: "string \<times> Symbol \<Rightarrow> bool" where
  "named kv = (name (snd kv) = fst kv)"

section \<open>Positions in the line array of a text\<close>





section \<open>The outline order\<close>

text \<open>The elements of a list in the order of their first occurrence.\<close>

definition first_occurrences :: "'a list \<Rightarrow> 'a list" where
  "first_occurrences xs = foldl (\<lambda>acc x. if x \<in> set acc then acc else acc @ [x]) [] xs"

text \<open>
  The tie-break as the specification words it: by the extraction pass that produced the
  retained symbol. \<open>pass_rank\<close> is the index of the last pass, of a list of passes' writes,
  that wrote the name, and the length of the list when none did (the label pass, which
  comes after them).
\<close>

fun pass_rank :: "Symbol dict list \<Rightarrow> string \<Rightarrow> nat" where
  "pass_rank [] n = 0"
| "pass_rank (ws # rest) n =
     (if list_ex (\<lambda>w. map_of w n \<noteq> None) rest \<or> map_of ws n = None
      then Suc (pass_rank rest n) else 0)"

definition retained_pass :: "string \<Rightarrow> string \<Rightarrow> nat" where
  "retained_pass text n =
     pass_rank (map (\<lambda>(pat, e). pass_writes pat e text) overwriting_passes) n"

definition outline_in_pass_order :: "string \<Rightarrow> DocumentSymbol list \<Rightarrow> bool" where
  "outline_in_pass_order text ds =
     sorted_wrt (\<lambda>a b. ds_line a < ds_line b \<or>
                       (ds_line a = ds_line b \<and>
                        retained_pass text (ds_name a) \<le> retained_pass text (ds_name b))) ds"

section \<open>The preprocessor, as the specification words it\<close>



section \<open>Comment stripping, as a scan\<close>

text \<open>The text after the first \<open>*/\<close> of a text, if there is one.\<close>

fun after_close :: "string \<Rightarrow> string option" where
  "after_close (a # b # r) =
     (if a = CHR ''*'' \<and> b = CHR ''/'' then Some r else after_close (b # r))"
| "after_close [a] = None"
| "after_close [] = None"

text \<open>
  A comment starts at \<open>/*\<close> and ends with the first \<open>*/\<close> that follows the opening; an
  opening without such an end is ordinary text. Comments do not nest, and a line end inside
  a comment is part of it.
\<close>

function strip_comments :: "string \<Rightarrow> string" where
  "strip_comments [] = []"
| "strip_comments (c # cs) =
     (case (if c = CHR ''/'' \<and> take 1 cs = ''*'' then after_close (drop 1 cs) else None) of
        Some rest \<Rightarrow> strip_comments rest
      | None \<Rightarrow> c # strip_comments cs)"
  by pat_completeness auto
termination
proof (relation "measure length")
  have shorter: "after_close r = Some rest \<Longrightarrow> length rest < length r" for r rest
    by (induction r rule: after_close.induct) (auto split: if_splits)
  fix c cs rest
  assume "(if c = CHR ''/'' \<and> take 1 cs = ''*'' then after_close (drop 1 cs) else None) = Some rest"
  then have "after_close (drop 1 cs) = Some rest" by (simp split: if_splits)
  then have "length rest < length (drop 1 cs)" by (rule shorter)
  then show "(rest, c # cs) \<in> measure length" by simp
qed simp_all

text \<open>
  Comment stripping as the specification words it, with greedy matching: the pattern
  \<open>/\*.*\*/\<close> in place of \<open>/\*.*?\*/\<close>.
\<close>

definition greedy_comment_pattern :: regex where
  "greedy_comment_pattern = seqs [lit ''/*'', Star DotAll, lit ''*/'']"

definition remove_comments_greedy :: "string \<Rightarrow> string" where
  "remove_comments_greedy text = re_sub False greedy_comment_pattern [] text"

section \<open>Groups and totality\<close>

declare finditer_from.simps [simp del]
declare sub_from.simps [simp del]
declare str_nat.simps [simp del]

lemma matches_groups:
  "st' \<in> set (matches ic r (p, s, g)) \<Longrightarrow> k \<in> always r \<or> g k \<noteq> None \<Longrightarrow>
   snd (snd st') k \<noteq> None"
proof (induction r arbitrary: p s g st')
  case (Seq r1 r2)
  from Seq.prems(1) obtain mid where mid: "mid \<in> set (matches ic r1 (p, s, g))"
    and st': "st' \<in> set (matches ic r2 mid)"
    by auto
  obtain p1 s1 g1 where m: "mid = (p1, s1, g1)" by (cases mid) auto
  show ?case
  proof (cases "k \<in> always r2")
    case True
    then show ?thesis using Seq.IH(2)[of st' p1 s1 g1] st' m by simp
  next
    case False
    then have "k \<in> always r1 \<or> g k \<noteq> None" using Seq.prems(2) by auto
    then have "g1 k \<noteq> None" using Seq.IH(1)[of mid p s g] mid m by simp
    then show ?thesis using Seq.IH(2)[of st' p1 s1 g1] st' m by simp
  qed
next
  case (Alt r1 r2)
  from Alt.prems(1) have "st' \<in> set (matches ic r1 (p, s, g)) \<or> st' \<in> set (matches ic r2 (p, s, g))"
    by auto
  then show ?case
  proof
    assume a: "st' \<in> set (matches ic r1 (p, s, g))"
    have "k \<in> always r1 \<or> g k \<noteq> None" using Alt.prems(2) by auto
    then show ?thesis using Alt.IH(1)[OF a] by simp
  next
    assume a: "st' \<in> set (matches ic r2 (p, s, g))"
    have "k \<in> always r2 \<or> g k \<noteq> None" using Alt.prems(2) by auto
    then show ?thesis using Alt.IH(2)[OF a] by simp
  qed
next
  case (Opt r)
  have gk: "g k \<noteq> None" using Opt.prems(2) by simp
  from Opt.prems(1) have "st' \<in> set (matches ic r (p, s, g)) \<or> st' = (p, s, g)"
    by auto
  then show ?case
  proof
    assume a: "st' \<in> set (matches ic r (p, s, g))"
    show ?thesis using Opt.IH[OF a] gk by simp
  next
    assume "st' = (p, s, g)"
    then show ?thesis using gk by simp
  qed
next
  case (Grp j r)
  then show ?case by (auto split: if_splits)
qed (auto split: list.splits if_splits)

lemma finditer_from_nomatch:
  "matches ic r (p, s, \<lambda>_. None) = [] \<Longrightarrow>
   finditer_from ic r t p s = (case s of [] \<Rightarrow> [] | c # cs \<Rightarrow> finditer_from ic r t (Some c) cs)"
  by (subst finditer_from.simps) simp

lemma finditer_from_match:
  "matches ic r (p, s, \<lambda>_. None) = (p', s', g) # rest \<Longrightarrow>
   finditer_from ic r t p s =
     \<lparr>mstart = length t - length s, mend = length t - length s', mgroup = g\<rparr> #
     (if length s' < length s then finditer_from ic r t p' s'
      else (case s of [] \<Rightarrow> [] | c # cs \<Rightarrow> finditer_from ic r t (Some c) cs))"
  by (subst finditer_from.simps) simp

lemma finditer_from_groups:
  "m \<in> set (finditer_from ic r t p s) \<Longrightarrow> k \<in> always r \<Longrightarrow> mgroup m k \<noteq> None"
proof (induction ic r t p s rule: finditer_from.induct)
  case (1 ic r t p s)
  show ?case
  proof (cases "matches ic r (p, s, \<lambda>_. None)")
    case Nil
    then show ?thesis
      using 1 by (auto simp: finditer_from_nomatch split: list.splits)
  next
    case (Cons st rest)
    obtain p' s' g where st: "st = (p', s', g)" by (cases st) auto
    have g: "g k \<noteq> None"
      using matches_groups[of st ic r p s "\<lambda>_. None" k] Cons st 1(5) by simp
    have eq: "finditer_from ic r t p s =
       \<lparr>mstart = length t - length s, mend = length t - length s', mgroup = g\<rparr> #
       (if length s' < length s then finditer_from ic r t p' s'
        else (case s of [] \<Rightarrow> [] | c # cs \<Rightarrow> finditer_from ic r t (Some c) cs))"
      using Cons st by (simp add: finditer_from_match)
    show ?thesis
      using 1 Cons st g unfolding eq
      by (auto split: if_splits list.splits)
  qed
qed

lemma finditer_groups:
  "m \<in> set (finditer ic r t) \<Longrightarrow> k \<in> always r \<Longrightarrow> mgroup m k \<noteq> None"
  unfolding finditer_def by (rule finditer_from_groups)

lemmas pattern_parts = ident_def ws0_def ws1_def ch_def lit_def opt_params_def

lemma apply_writes_Nil [simp]: "apply_writes P [] = P"
  by (simp add: apply_writes_def)

lemma apply_writes_append: "apply_writes P (a @ b) = apply_writes (apply_writes P a) b"
  by (simp add: apply_writes_def)

lemma apply_writes_single: "apply_writes P [(k, v)] = set_symbol P k v"
  by (simp add: apply_writes_def)

lemma add_absent_Nil [simp]: "add_absent P [] = P"
  by (simp add: add_absent_def)

lemma add_absent_append: "add_absent P (a @ b) = add_absent (add_absent P a) b"
  by (simp add: add_absent_def)

lemma for_each_apply:
  assumes "\<And>m P. m \<in> set ms \<Longrightarrow> e m P = Inr (apply_writes P (entry_writes e m))"
  shows "for_each e ms P = Inr (apply_writes P (concat (map (entry_writes e) ms)))"
  using assms
proof (induction ms arbitrary: P)
  case Nil
  then show ?case by simp
next
  case (Cons m ms)
  have "e m P = Inr (apply_writes P (entry_writes e m))" using Cons.prems by simp
  moreover have "for_each e ms (apply_writes P (entry_writes e m)) =
      Inr (apply_writes (apply_writes P (entry_writes e m)) (concat (map (entry_writes e) ms)))"
    using Cons.IH Cons.prems by simp
  ultimately show ?case by (simp add: apply_writes_append)
qed

lemma for_each_absent:
  assumes "\<And>m P. m \<in> set ms \<Longrightarrow> e m P = Inr (add_absent P (entry_writes e m))"
  shows "for_each e ms P = Inr (add_absent P (concat (map (entry_writes e) ms)))"
  using assms
proof (induction ms arbitrary: P)
  case Nil
  then show ?case by simp
next
  case (Cons m ms)
  have "e m P = Inr (add_absent P (entry_writes e m))" using Cons.prems by simp
  moreover have "for_each e ms (add_absent P (entry_writes e m)) =
      Inr (add_absent (add_absent P (entry_writes e m)) (concat (map (entry_writes e) ms)))"
    using Cons.IH Cons.prems by simp
  ultimately show ?case by (simp add: add_absent_append)
qed

lemma program_entry_writes:
  "mgroup m 1 \<noteq> None \<Longrightarrow>
   program_entry t m P = Inr (apply_writes P (entry_writes (program_entry t) m))"
  by (auto simp: program_entry_def entry_writes_def apply_writes_def set_symbol_def init_def Let_def
           split: prod.splits option.splits)

lemma parse_programs_eq:
  "parse_programs t P = Inr (apply_writes P (pass_writes program_pattern program_entry t))"
proof -
  have "\<And>m P. m \<in> set (finditer True program_pattern t) \<Longrightarrow>
      program_entry t m P = Inr (apply_writes P (entry_writes (program_entry t) m))"
  proof -
    fix m P
    assume m: "m \<in> set (finditer True program_pattern t)"
    have g1: "mgroup m 1 \<noteq> None"
      by (rule finditer_groups[OF m]) (simp add: program_pattern_def pattern_parts)
    show "program_entry t m P = Inr (apply_writes P (entry_writes (program_entry t) m))"
      by (rule program_entry_writes) (fact g1)+
  qed
  then show ?thesis
    unfolding parse_programs_def pass_writes_def by (rule for_each_apply)
qed

lemma procedure_entry_writes:
  "mgroup m 1 \<noteq> None \<Longrightarrow>
   procedure_entry t m P = Inr (apply_writes P (entry_writes (procedure_entry t) m))"
  by (auto simp: procedure_entry_def entry_writes_def apply_writes_def set_symbol_def init_def Let_def
           split: prod.splits option.splits)

lemma parse_procedures_eq:
  "parse_procedures t P = Inr (apply_writes P (pass_writes procedure_pattern procedure_entry t))"
proof -
  have "\<And>m P. m \<in> set (finditer True procedure_pattern t) \<Longrightarrow>
      procedure_entry t m P = Inr (apply_writes P (entry_writes (procedure_entry t) m))"
  proof -
    fix m P
    assume m: "m \<in> set (finditer True procedure_pattern t)"
    have g1: "mgroup m 1 \<noteq> None"
      by (rule finditer_groups[OF m]) (simp add: procedure_pattern_def pattern_parts)
    show "procedure_entry t m P = Inr (apply_writes P (entry_writes (procedure_entry t) m))"
      by (rule procedure_entry_writes) (fact g1)+
  qed
  then show ?thesis
    unfolding parse_procedures_def pass_writes_def by (rule for_each_apply)
qed

lemma function_entry_writes:
  "mgroup m 1 \<noteq> None \<Longrightarrow>
   function_entry t m P = Inr (apply_writes P (entry_writes (function_entry t) m))"
  by (auto simp: function_entry_def entry_writes_def apply_writes_def set_symbol_def init_def Let_def
           split: prod.splits option.splits)

lemma parse_functions_eq:
  "parse_functions t P = Inr (apply_writes P (pass_writes function_pattern function_entry t))"
proof -
  have "\<And>m P. m \<in> set (finditer True function_pattern t) \<Longrightarrow>
      function_entry t m P = Inr (apply_writes P (entry_writes (function_entry t) m))"
  proof -
    fix m P
    assume m: "m \<in> set (finditer True function_pattern t)"
    have g1: "mgroup m 1 \<noteq> None"
      by (rule finditer_groups[OF m]) (simp add: function_pattern_def pattern_parts)
    show "function_entry t m P = Inr (apply_writes P (entry_writes (function_entry t) m))"
      by (rule function_entry_writes) (fact g1)+
  qed
  then show ?thesis
    unfolding parse_functions_def pass_writes_def by (rule for_each_apply)
qed

lemma task_entry_writes:
  "mgroup m 1 \<noteq> None \<Longrightarrow>
   task_entry t m P = Inr (apply_writes P (entry_writes (task_entry t) m))"
  by (auto simp: task_entry_def entry_writes_def apply_writes_def set_symbol_def init_def Let_def
           split: prod.splits option.splits)

lemma parse_tasks_eq:
  "parse_tasks t P = Inr (apply_writes P (pass_writes task_pattern task_entry t))"
proof -
  have "\<And>m P. m \<in> set (finditer True task_pattern t) \<Longrightarrow>
      task_entry t m P = Inr (apply_writes P (entry_writes (task_entry t) m))"
  proof -
    fix m P
    assume m: "m \<in> set (finditer True task_pattern t)"
    have g1: "mgroup m 1 \<noteq> None"
      by (rule finditer_groups[OF m]) (simp add: task_pattern_def pattern_parts)
    show "task_entry t m P = Inr (apply_writes P (entry_writes (task_entry t) m))"
      by (rule task_entry_writes) (fact g1)+
  qed
  then show ?thesis
    unfolding parse_tasks_def pass_writes_def by (rule for_each_apply)
qed

lemma compool_entry_writes:
  "mgroup m 1 \<noteq> None \<Longrightarrow>
   compool_entry t m P = Inr (apply_writes P (entry_writes (compool_entry t) m))"
  by (auto simp: compool_entry_def entry_writes_def apply_writes_def set_symbol_def init_def Let_def
           split: prod.splits option.splits)

lemma parse_compools_eq:
  "parse_compools t P = Inr (apply_writes P (pass_writes compool_pattern compool_entry t))"
proof -
  have "\<And>m P. m \<in> set (finditer True compool_pattern t) \<Longrightarrow>
      compool_entry t m P = Inr (apply_writes P (entry_writes (compool_entry t) m))"
  proof -
    fix m P
    assume m: "m \<in> set (finditer True compool_pattern t)"
    have g1: "mgroup m 1 \<noteq> None"
      by (rule finditer_groups[OF m]) (simp add: compool_pattern_def pattern_parts)
    show "compool_entry t m P = Inr (apply_writes P (entry_writes (compool_entry t) m))"
      by (rule compool_entry_writes) (fact g1)+
  qed
  then show ?thesis
    unfolding parse_compools_def pass_writes_def by (rule for_each_apply)
qed

lemma simple_declare_entry_writes:
  "mgroup m 1 \<noteq> None \<Longrightarrow> mgroup m 2 \<noteq> None \<Longrightarrow>
   simple_declare_entry t m P = Inr (apply_writes P (entry_writes (simple_declare_entry t) m))"
  by (auto simp: simple_declare_entry_def entry_writes_def apply_writes_def set_symbol_def init_def Let_def
           split: prod.splits option.splits)

lemma parse_simple_declares_eq:
  "parse_simple_declares t P = Inr (apply_writes P (pass_writes simple_declare_pattern simple_declare_entry t))"
proof -
  have "\<And>m P. m \<in> set (finditer True simple_declare_pattern t) \<Longrightarrow>
      simple_declare_entry t m P = Inr (apply_writes P (entry_writes (simple_declare_entry t) m))"
  proof -
    fix m P
    assume m: "m \<in> set (finditer True simple_declare_pattern t)"
    have g1: "mgroup m 1 \<noteq> None"
      by (rule finditer_groups[OF m]) (simp add: simple_declare_pattern_def pattern_parts)
    have g2: "mgroup m 2 \<noteq> None"
      by (rule finditer_groups[OF m]) (simp add: simple_declare_pattern_def pattern_parts)
    show "simple_declare_entry t m P = Inr (apply_writes P (entry_writes (simple_declare_entry t) m))"
      by (rule simple_declare_entry_writes) (fact g1 g2)+
  qed
  then show ?thesis
    unfolding parse_simple_declares_def pass_writes_def by (rule for_each_apply)
qed

lemma array_declare_entry_writes:
  "mgroup m 1 \<noteq> None \<Longrightarrow> mgroup m 2 \<noteq> None \<Longrightarrow> mgroup m 3 \<noteq> None \<Longrightarrow>
   array_declare_entry t m P = Inr (apply_writes P (entry_writes (array_declare_entry t) m))"
  by (auto simp: array_declare_entry_def entry_writes_def apply_writes_def set_symbol_def init_def Let_def
           split: prod.splits option.splits)

lemma parse_array_declares_eq:
  "parse_array_declares t P = Inr (apply_writes P (pass_writes array_declare_pattern array_declare_entry t))"
proof -
  have "\<And>m P. m \<in> set (finditer True array_declare_pattern t) \<Longrightarrow>
      array_declare_entry t m P = Inr (apply_writes P (entry_writes (array_declare_entry t) m))"
  proof -
    fix m P
    assume m: "m \<in> set (finditer True array_declare_pattern t)"
    have g1: "mgroup m 1 \<noteq> None"
      by (rule finditer_groups[OF m]) (simp add: array_declare_pattern_def pattern_parts)
    have g2: "mgroup m 2 \<noteq> None"
      by (rule finditer_groups[OF m]) (simp add: array_declare_pattern_def pattern_parts)
    have g3: "mgroup m 3 \<noteq> None"
      by (rule finditer_groups[OF m]) (simp add: array_declare_pattern_def pattern_parts)
    show "array_declare_entry t m P = Inr (apply_writes P (entry_writes (array_declare_entry t) m))"
      by (rule array_declare_entry_writes) (fact g1 g2 g3)+
  qed
  then show ?thesis
    unfolding parse_array_declares_def pass_writes_def by (rule for_each_apply)
qed

lemma constant_declare_entry_writes:
  "mgroup m 1 \<noteq> None \<Longrightarrow> mgroup m 2 \<noteq> None \<Longrightarrow>
   constant_declare_entry t m P = Inr (apply_writes P (entry_writes (constant_declare_entry t) m))"
  by (auto simp: constant_declare_entry_def entry_writes_def apply_writes_def set_symbol_def init_def Let_def
           split: prod.splits option.splits)

lemma parse_constant_declares_eq:
  "parse_constant_declares t P = Inr (apply_writes P (pass_writes constant_declare_pattern constant_declare_entry t))"
proof -
  have "\<And>m P. m \<in> set (finditer True constant_declare_pattern t) \<Longrightarrow>
      constant_declare_entry t m P = Inr (apply_writes P (entry_writes (constant_declare_entry t) m))"
  proof -
    fix m P
    assume m: "m \<in> set (finditer True constant_declare_pattern t)"
    have g1: "mgroup m 1 \<noteq> None"
      by (rule finditer_groups[OF m]) (simp add: constant_declare_pattern_def pattern_parts)
    have g2: "mgroup m 2 \<noteq> None"
      by (rule finditer_groups[OF m]) (simp add: constant_declare_pattern_def pattern_parts)
    show "constant_declare_entry t m P = Inr (apply_writes P (entry_writes (constant_declare_entry t) m))"
      by (rule constant_declare_entry_writes) (fact g1 g2)+
  qed
  then show ?thesis
    unfolding parse_constant_declares_def pass_writes_def by (rule for_each_apply)
qed

lemma vector_declare_entry_writes:
  "mgroup m 1 \<noteq> None \<Longrightarrow> mgroup m 2 \<noteq> None \<Longrightarrow>
   vector_declare_entry t m P = Inr (apply_writes P (entry_writes (vector_declare_entry t) m))"
  by (auto simp: vector_declare_entry_def entry_writes_def apply_writes_def set_symbol_def init_def Let_def
           split: prod.splits option.splits)

lemma parse_vector_declares_eq:
  "parse_vector_declares t P = Inr (apply_writes P (pass_writes vector_declare_pattern vector_declare_entry t))"
proof -
  have "\<And>m P. m \<in> set (finditer True vector_declare_pattern t) \<Longrightarrow>
      vector_declare_entry t m P = Inr (apply_writes P (entry_writes (vector_declare_entry t) m))"
  proof -
    fix m P
    assume m: "m \<in> set (finditer True vector_declare_pattern t)"
    have g1: "mgroup m 1 \<noteq> None"
      by (rule finditer_groups[OF m]) (simp add: vector_declare_pattern_def pattern_parts)
    have g2: "mgroup m 2 \<noteq> None"
      by (rule finditer_groups[OF m]) (simp add: vector_declare_pattern_def pattern_parts)
    show "vector_declare_entry t m P = Inr (apply_writes P (entry_writes (vector_declare_entry t) m))"
      by (rule vector_declare_entry_writes) (fact g1 g2)+
  qed
  then show ?thesis
    unfolding parse_vector_declares_def pass_writes_def by (rule for_each_apply)
qed

lemma matrix_declare_entry_writes:
  "mgroup m 1 \<noteq> None \<Longrightarrow> mgroup m 2 \<noteq> None \<Longrightarrow> mgroup m 3 \<noteq> None \<Longrightarrow>
   matrix_declare_entry t m P = Inr (apply_writes P (entry_writes (matrix_declare_entry t) m))"
  by (auto simp: matrix_declare_entry_def entry_writes_def apply_writes_def set_symbol_def init_def Let_def
           split: prod.splits option.splits)

lemma parse_matrix_declares_eq:
  "parse_matrix_declares t P = Inr (apply_writes P (pass_writes matrix_declare_pattern matrix_declare_entry t))"
proof -
  have "\<And>m P. m \<in> set (finditer True matrix_declare_pattern t) \<Longrightarrow>
      matrix_declare_entry t m P = Inr (apply_writes P (entry_writes (matrix_declare_entry t) m))"
  proof -
    fix m P
    assume m: "m \<in> set (finditer True matrix_declare_pattern t)"
    have g1: "mgroup m 1 \<noteq> None"
      by (rule finditer_groups[OF m]) (simp add: matrix_declare_pattern_def pattern_parts)
    have g2: "mgroup m 2 \<noteq> None"
      by (rule finditer_groups[OF m]) (simp add: matrix_declare_pattern_def pattern_parts)
    have g3: "mgroup m 3 \<noteq> None"
      by (rule finditer_groups[OF m]) (simp add: matrix_declare_pattern_def pattern_parts)
    show "matrix_declare_entry t m P = Inr (apply_writes P (entry_writes (matrix_declare_entry t) m))"
      by (rule matrix_declare_entry_writes) (fact g1 g2 g3)+
  qed
  then show ?thesis
    unfolding parse_matrix_declares_def pass_writes_def by (rule for_each_apply)
qed

lemma structure_entry_writes:
  "mgroup m 1 \<noteq> None \<Longrightarrow>
   structure_entry t m P = Inr (apply_writes P (entry_writes (structure_entry t) m))"
  by (auto simp: structure_entry_def entry_writes_def apply_writes_def set_symbol_def init_def Let_def
           split: prod.splits option.splits)

lemma parse_structures_eq:
  "parse_structures t P = Inr (apply_writes P (pass_writes structure_pattern structure_entry t))"
proof -
  have "\<And>m P. m \<in> set (finditer True structure_pattern t) \<Longrightarrow>
      structure_entry t m P = Inr (apply_writes P (entry_writes (structure_entry t) m))"
  proof -
    fix m P
    assume m: "m \<in> set (finditer True structure_pattern t)"
    have g1: "mgroup m 1 \<noteq> None"
      by (rule finditer_groups[OF m]) (simp add: structure_pattern_def pattern_parts)
    show "structure_entry t m P = Inr (apply_writes P (entry_writes (structure_entry t) m))"
      by (rule structure_entry_writes) (fact g1)+
  qed
  then show ?thesis
    unfolding parse_structures_def pass_writes_def by (rule for_each_apply)
qed

lemma replace_entry_writes:
  "mgroup m 1 \<noteq> None \<Longrightarrow> mgroup m 2 \<noteq> None \<Longrightarrow>
   replace_entry t m P = Inr (apply_writes P (entry_writes (replace_entry t) m))"
  by (auto simp: replace_entry_def entry_writes_def apply_writes_def set_symbol_def init_def Let_def
           split: prod.splits option.splits)

lemma parse_replaces_eq:
  "parse_replaces t P = Inr (apply_writes P (pass_writes replace_pattern replace_entry t))"
proof -
  have "\<And>m P. m \<in> set (finditer True replace_pattern t) \<Longrightarrow>
      replace_entry t m P = Inr (apply_writes P (entry_writes (replace_entry t) m))"
  proof -
    fix m P
    assume m: "m \<in> set (finditer True replace_pattern t)"
    have g1: "mgroup m 1 \<noteq> None"
      by (rule finditer_groups[OF m]) (simp add: replace_pattern_def pattern_parts)
    have g2: "mgroup m 2 \<noteq> None"
      by (rule finditer_groups[OF m]) (simp add: replace_pattern_def pattern_parts)
    show "replace_entry t m P = Inr (apply_writes P (entry_writes (replace_entry t) m))"
      by (rule replace_entry_writes) (fact g1 g2)+
  qed
  then show ?thesis
    unfolding parse_replaces_def pass_writes_def by (rule for_each_apply)
qed

lemma label_entry_writes:
  "mgroup m 1 \<noteq> None \<Longrightarrow>
   label_entry t m P = Inr (add_absent P (entry_writes (label_entry t) m))"
  by (auto simp: label_entry_def entry_writes_def add_absent_def set_symbol_def init_def Let_def
        dict_has_def split: prod.splits option.splits)

lemma parse_labels_eq:
  "parse_labels t P = Inr (add_absent P (label_writes t))"
proof -
  have "\<And>m P. m \<in> set (finditer True label_pattern t) \<Longrightarrow>
      label_entry t m P = Inr (add_absent P (entry_writes (label_entry t) m))"
  proof -
    fix m P
    assume m: "m \<in> set (finditer True label_pattern t)"
    have g1: "mgroup m 1 \<noteq> None"
      by (rule finditer_groups[OF m]) (simp add: label_pattern_def pattern_parts)
    show "label_entry t m P = Inr (add_absent P (entry_writes (label_entry t) m))"
      by (rule label_entry_writes) (fact g1)
  qed
  then show ?thesis
    unfolding parse_labels_def label_writes_def pass_writes_def by (rule for_each_absent)
qed

lemma reference_entry_refs:
  "mgroup m 1 \<noteq> None \<Longrightarrow>
   reference_entry t m P = Inr (P\<lparr>references := references P @ entry_refs (reference_entry t) m\<rparr>)"
  by (auto simp: reference_entry_def entry_refs_def init_def Let_def
           split: prod.splits option.splits)

lemma for_each_refs:
  assumes "\<And>m P. m \<in> set ms \<Longrightarrow> e m P = Inr (P\<lparr>references := references P @ entry_refs e m\<rparr>)"
  shows "for_each e ms P = Inr (P\<lparr>references := references P @ concat (map (entry_refs e) ms)\<rparr>)"
  using assms
proof (induction ms arbitrary: P)
  case Nil
  then show ?case by simp
next
  case (Cons m ms)
  have "e m P = Inr (P\<lparr>references := references P @ entry_refs e m\<rparr>)"
    using Cons.prems by simp
  moreover have "for_each e ms (P\<lparr>references := references P @ entry_refs e m\<rparr>) =
      Inr ((P\<lparr>references := references P @ entry_refs e m\<rparr>)
           \<lparr>references := references (P\<lparr>references := references P @ entry_refs e m\<rparr>) @
              concat (map (entry_refs e) ms)\<rparr>)"
    using Cons.IH Cons.prems by simp
  ultimately show ?case by simp
qed

lemma parse_references_eq:
  "parse_references t P = Inr (P\<lparr>references := references P @ collected_refs t\<rparr>)"
proof -
  have "\<And>m P. m \<in> set (finditer True reference_pattern t) \<Longrightarrow>
      reference_entry t m P =
        Inr (P\<lparr>references := references P @ entry_refs (reference_entry t) m\<rparr>)"
  proof -
    fix m P
    assume m: "m \<in> set (finditer True reference_pattern t)"
    have g1: "mgroup m 1 \<noteq> None"
      by (rule finditer_groups[OF m]) (simp add: reference_pattern_def pattern_parts)
    show "reference_entry t m P =
        Inr (P\<lparr>references := references P @ entry_refs (reference_entry t) m\<rparr>)"
      by (rule reference_entry_refs) (fact g1)
  qed
  then show ?thesis
    unfolding parse_references_def collected_refs_def by (rule for_each_refs)
qed

lemma run_Nil [simp]: "run [] s = Inr s"
  by (simp add: run_def)

lemma run_Cons: "f s = Inr s' \<Longrightarrow> run (f # fs) s = run fs s'"
  by (simp add: run_def)

lemma parse_declares_eq:
  "parse_declares t P =
     Inr (apply_writes P
       (pass_writes simple_declare_pattern simple_declare_entry t @
        pass_writes array_declare_pattern array_declare_entry t @
        pass_writes constant_declare_pattern constant_declare_entry t @
        pass_writes vector_declare_pattern vector_declare_entry t @
        pass_writes matrix_declare_pattern matrix_declare_entry t))"
  unfolding parse_declares_def
  by (simp add: run_Cons[OF parse_simple_declares_eq] run_Cons[OF parse_array_declares_eq]
        run_Cons[OF parse_constant_declares_eq] run_Cons[OF parse_vector_declares_eq]
        run_Cons[OF parse_matrix_declares_eq] apply_writes_append)

lemma run_extraction_passes:
  "run (extraction_passes t) P =
     Inr (add_absent (apply_writes P (declared_writes t)) (label_writes t))"
  unfolding extraction_passes_def declared_writes_def overwriting_passes_def
  by (simp add: run_Cons[OF parse_programs_eq] run_Cons[OF parse_procedures_eq]
        run_Cons[OF parse_functions_eq] run_Cons[OF parse_tasks_eq]
        run_Cons[OF parse_compools_eq] run_Cons[OF parse_declares_eq]
        run_Cons[OF parse_structures_eq] run_Cons[OF parse_replaces_eq]
        run_Cons[OF parse_labels_eq] apply_writes_append)

lemma run_append:
  "run fs s = Inr s' \<Longrightarrow> run (fs @ gs) s = run gs s'"
  unfolding run_def
  by (induction fs arbitrary: s) (auto split: sum.splits)

text \<open>The state \<open>parse\<close> leaves, in closed form; \<open>parse\<close> never raises.\<close>

lemma parse_eq:
  "parse P text =
     Inr ((add_absent (apply_writes (reset P text) (declared_writes (cleaned text)))
             (label_writes (cleaned text)))
          \<lparr>references :=
             references (add_absent (apply_writes (reset P text) (declared_writes (cleaned text)))
                          (label_writes (cleaned text))) @
             collected_refs (cleaned text)\<rparr>)"
  unfolding parse_def Let_def cleaned_def[symmetric]
  by (simp add: run_append[OF run_extraction_passes] run_Cons[OF parse_references_eq])

lemma apply_writes_fields [simp]:
  "references (apply_writes P ws) = references P"
  "diagnostics (apply_writes P ws) = diagnostics P"
  "lines (apply_writes P ws) = lines P"
  "current_scope (apply_writes P ws) = current_scope P"
  "scope_stack (apply_writes P ws) = scope_stack P"
  by (induction ws arbitrary: P; simp add: apply_writes_def set_symbol_def)+

lemma add_absent_fields [simp]:
  "references (add_absent P ws) = references P"
  "diagnostics (add_absent P ws) = diagnostics P"
  "lines (add_absent P ws) = lines P"
  "current_scope (add_absent P ws) = current_scope P"
  "scope_stack (add_absent P ws) = scope_stack P"
  by (induction ws arbitrary: P; simp add: add_absent_def set_symbol_def)+

lemma reset_fields [simp]:
  "symbols (reset P text) = []"
  "references (reset P text) = []"
  "diagnostics (reset P text) = []"
  "lines (reset P text) = split newline text"
  "current_scope (reset P text) = ''global''"
  "scope_stack (reset P text) = [''global'']"
  by (simp_all add: reset_def)

section \<open>Evaluating the parser on a given text\<close>

text \<open>The character classes on the ASCII characters from TAB to the tilde.\<close>

lemma char_table:
  "is_upper (CHR 0x09) = False"
  "is_lower (CHR 0x09) = False"
  "is_digit (CHR 0x09) = False"
  "is_space (CHR 0x09) = True"
  "is_word (CHR 0x09) = False"
  "upper_char (CHR 0x09) = [CHR 0x09]"
  "swap_upper (CHR 0x09) = CHR 0x09"
  "swap_lower (CHR 0x09) = CHR 0x09"
  "is_upper (CHR 0x0A) = False"
  "is_lower (CHR 0x0A) = False"
  "is_digit (CHR 0x0A) = False"
  "is_space (CHR 0x0A) = True"
  "is_word (CHR 0x0A) = False"
  "upper_char (CHR 0x0A) = [CHR 0x0A]"
  "swap_upper (CHR 0x0A) = CHR 0x0A"
  "swap_lower (CHR 0x0A) = CHR 0x0A"
  "is_upper (CHR 0x0B) = False"
  "is_lower (CHR 0x0B) = False"
  "is_digit (CHR 0x0B) = False"
  "is_space (CHR 0x0B) = True"
  "is_word (CHR 0x0B) = False"
  "upper_char (CHR 0x0B) = [CHR 0x0B]"
  "swap_upper (CHR 0x0B) = CHR 0x0B"
  "swap_lower (CHR 0x0B) = CHR 0x0B"
  "is_upper (CHR 0x0C) = False"
  "is_lower (CHR 0x0C) = False"
  "is_digit (CHR 0x0C) = False"
  "is_space (CHR 0x0C) = True"
  "is_word (CHR 0x0C) = False"
  "upper_char (CHR 0x0C) = [CHR 0x0C]"
  "swap_upper (CHR 0x0C) = CHR 0x0C"
  "swap_lower (CHR 0x0C) = CHR 0x0C"
  "is_upper (CHR 0x0D) = False"
  "is_lower (CHR 0x0D) = False"
  "is_digit (CHR 0x0D) = False"
  "is_space (CHR 0x0D) = True"
  "is_word (CHR 0x0D) = False"
  "upper_char (CHR 0x0D) = [CHR 0x0D]"
  "swap_upper (CHR 0x0D) = CHR 0x0D"
  "swap_lower (CHR 0x0D) = CHR 0x0D"
  "is_upper (CHR 0x1C) = False"
  "is_lower (CHR 0x1C) = False"
  "is_digit (CHR 0x1C) = False"
  "is_space (CHR 0x1C) = True"
  "is_word (CHR 0x1C) = False"
  "upper_char (CHR 0x1C) = [CHR 0x1C]"
  "swap_upper (CHR 0x1C) = CHR 0x1C"
  "swap_lower (CHR 0x1C) = CHR 0x1C"
  "is_upper (CHR 0x1D) = False"
  "is_lower (CHR 0x1D) = False"
  "is_digit (CHR 0x1D) = False"
  "is_space (CHR 0x1D) = True"
  "is_word (CHR 0x1D) = False"
  "upper_char (CHR 0x1D) = [CHR 0x1D]"
  "swap_upper (CHR 0x1D) = CHR 0x1D"
  "swap_lower (CHR 0x1D) = CHR 0x1D"
  "is_upper (CHR 0x1E) = False"
  "is_lower (CHR 0x1E) = False"
  "is_digit (CHR 0x1E) = False"
  "is_space (CHR 0x1E) = True"
  "is_word (CHR 0x1E) = False"
  "upper_char (CHR 0x1E) = [CHR 0x1E]"
  "swap_upper (CHR 0x1E) = CHR 0x1E"
  "swap_lower (CHR 0x1E) = CHR 0x1E"
  "is_upper (CHR 0x1F) = False"
  "is_lower (CHR 0x1F) = False"
  "is_digit (CHR 0x1F) = False"
  "is_space (CHR 0x1F) = True"
  "is_word (CHR 0x1F) = False"
  "upper_char (CHR 0x1F) = [CHR 0x1F]"
  "swap_upper (CHR 0x1F) = CHR 0x1F"
  "swap_lower (CHR 0x1F) = CHR 0x1F"
  "is_upper (CHR 0x20) = False"
  "is_lower (CHR 0x20) = False"
  "is_digit (CHR 0x20) = False"
  "is_space (CHR 0x20) = True"
  "is_word (CHR 0x20) = False"
  "upper_char (CHR 0x20) = [CHR 0x20]"
  "swap_upper (CHR 0x20) = CHR 0x20"
  "swap_lower (CHR 0x20) = CHR 0x20"
  "is_upper (CHR 0x21) = False"
  "is_lower (CHR 0x21) = False"
  "is_digit (CHR 0x21) = False"
  "is_space (CHR 0x21) = False"
  "is_word (CHR 0x21) = False"
  "upper_char (CHR 0x21) = [CHR 0x21]"
  "swap_upper (CHR 0x21) = CHR 0x21"
  "swap_lower (CHR 0x21) = CHR 0x21"
  "is_upper (CHR 0x22) = False"
  "is_lower (CHR 0x22) = False"
  "is_digit (CHR 0x22) = False"
  "is_space (CHR 0x22) = False"
  "is_word (CHR 0x22) = False"
  "upper_char (CHR 0x22) = [CHR 0x22]"
  "swap_upper (CHR 0x22) = CHR 0x22"
  "swap_lower (CHR 0x22) = CHR 0x22"
  "is_upper (CHR 0x23) = False"
  "is_lower (CHR 0x23) = False"
  "is_digit (CHR 0x23) = False"
  "is_space (CHR 0x23) = False"
  "is_word (CHR 0x23) = False"
  "upper_char (CHR 0x23) = [CHR 0x23]"
  "swap_upper (CHR 0x23) = CHR 0x23"
  "swap_lower (CHR 0x23) = CHR 0x23"
  "is_upper (CHR 0x24) = False"
  "is_lower (CHR 0x24) = False"
  "is_digit (CHR 0x24) = False"
  "is_space (CHR 0x24) = False"
  "is_word (CHR 0x24) = False"
  "upper_char (CHR 0x24) = [CHR 0x24]"
  "swap_upper (CHR 0x24) = CHR 0x24"
  "swap_lower (CHR 0x24) = CHR 0x24"
  "is_upper (CHR 0x25) = False"
  "is_lower (CHR 0x25) = False"
  "is_digit (CHR 0x25) = False"
  "is_space (CHR 0x25) = False"
  "is_word (CHR 0x25) = False"
  "upper_char (CHR 0x25) = [CHR 0x25]"
  "swap_upper (CHR 0x25) = CHR 0x25"
  "swap_lower (CHR 0x25) = CHR 0x25"
  "is_upper (CHR 0x26) = False"
  "is_lower (CHR 0x26) = False"
  "is_digit (CHR 0x26) = False"
  "is_space (CHR 0x26) = False"
  "is_word (CHR 0x26) = False"
  "upper_char (CHR 0x26) = [CHR 0x26]"
  "swap_upper (CHR 0x26) = CHR 0x26"
  "swap_lower (CHR 0x26) = CHR 0x26"
  "is_upper (CHR 0x27) = False"
  "is_lower (CHR 0x27) = False"
  "is_digit (CHR 0x27) = False"
  "is_space (CHR 0x27) = False"
  "is_word (CHR 0x27) = False"
  "upper_char (CHR 0x27) = [CHR 0x27]"
  "swap_upper (CHR 0x27) = CHR 0x27"
  "swap_lower (CHR 0x27) = CHR 0x27"
  "is_upper (CHR 0x28) = False"
  "is_lower (CHR 0x28) = False"
  "is_digit (CHR 0x28) = False"
  "is_space (CHR 0x28) = False"
  "is_word (CHR 0x28) = False"
  "upper_char (CHR 0x28) = [CHR 0x28]"
  "swap_upper (CHR 0x28) = CHR 0x28"
  "swap_lower (CHR 0x28) = CHR 0x28"
  "is_upper (CHR 0x29) = False"
  "is_lower (CHR 0x29) = False"
  "is_digit (CHR 0x29) = False"
  "is_space (CHR 0x29) = False"
  "is_word (CHR 0x29) = False"
  "upper_char (CHR 0x29) = [CHR 0x29]"
  "swap_upper (CHR 0x29) = CHR 0x29"
  "swap_lower (CHR 0x29) = CHR 0x29"
  "is_upper (CHR 0x2A) = False"
  "is_lower (CHR 0x2A) = False"
  "is_digit (CHR 0x2A) = False"
  "is_space (CHR 0x2A) = False"
  "is_word (CHR 0x2A) = False"
  "upper_char (CHR 0x2A) = [CHR 0x2A]"
  "swap_upper (CHR 0x2A) = CHR 0x2A"
  "swap_lower (CHR 0x2A) = CHR 0x2A"
  "is_upper (CHR 0x2B) = False"
  "is_lower (CHR 0x2B) = False"
  "is_digit (CHR 0x2B) = False"
  "is_space (CHR 0x2B) = False"
  "is_word (CHR 0x2B) = False"
  "upper_char (CHR 0x2B) = [CHR 0x2B]"
  "swap_upper (CHR 0x2B) = CHR 0x2B"
  "swap_lower (CHR 0x2B) = CHR 0x2B"
  "is_upper (CHR 0x2C) = False"
  "is_lower (CHR 0x2C) = False"
  "is_digit (CHR 0x2C) = False"
  "is_space (CHR 0x2C) = False"
  "is_word (CHR 0x2C) = False"
  "upper_char (CHR 0x2C) = [CHR 0x2C]"
  "swap_upper (CHR 0x2C) = CHR 0x2C"
  "swap_lower (CHR 0x2C) = CHR 0x2C"
  "is_upper (CHR 0x2D) = False"
  "is_lower (CHR 0x2D) = False"
  "is_digit (CHR 0x2D) = False"
  "is_space (CHR 0x2D) = False"
  "is_word (CHR 0x2D) = False"
  "upper_char (CHR 0x2D) = [CHR 0x2D]"
  "swap_upper (CHR 0x2D) = CHR 0x2D"
  "swap_lower (CHR 0x2D) = CHR 0x2D"
  "is_upper (CHR 0x2E) = False"
  "is_lower (CHR 0x2E) = False"
  "is_digit (CHR 0x2E) = False"
  "is_space (CHR 0x2E) = False"
  "is_word (CHR 0x2E) = False"
  "upper_char (CHR 0x2E) = [CHR 0x2E]"
  "swap_upper (CHR 0x2E) = CHR 0x2E"
  "swap_lower (CHR 0x2E) = CHR 0x2E"
  "is_upper (CHR 0x2F) = False"
  "is_lower (CHR 0x2F) = False"
  "is_digit (CHR 0x2F) = False"
  "is_space (CHR 0x2F) = False"
  "is_word (CHR 0x2F) = False"
  "upper_char (CHR 0x2F) = [CHR 0x2F]"
  "swap_upper (CHR 0x2F) = CHR 0x2F"
  "swap_lower (CHR 0x2F) = CHR 0x2F"
  "is_upper (CHR 0x30) = False"
  "is_lower (CHR 0x30) = False"
  "is_digit (CHR 0x30) = True"
  "is_space (CHR 0x30) = False"
  "is_word (CHR 0x30) = True"
  "upper_char (CHR 0x30) = [CHR 0x30]"
  "swap_upper (CHR 0x30) = CHR 0x30"
  "swap_lower (CHR 0x30) = CHR 0x30"
  "is_upper (CHR 0x31) = False"
  "is_lower (CHR 0x31) = False"
  "is_digit (CHR 0x31) = True"
  "is_space (CHR 0x31) = False"
  "is_word (CHR 0x31) = True"
  "upper_char (CHR 0x31) = [CHR 0x31]"
  "swap_upper (CHR 0x31) = CHR 0x31"
  "swap_lower (CHR 0x31) = CHR 0x31"
  "is_upper (CHR 0x32) = False"
  "is_lower (CHR 0x32) = False"
  "is_digit (CHR 0x32) = True"
  "is_space (CHR 0x32) = False"
  "is_word (CHR 0x32) = True"
  "upper_char (CHR 0x32) = [CHR 0x32]"
  "swap_upper (CHR 0x32) = CHR 0x32"
  "swap_lower (CHR 0x32) = CHR 0x32"
  "is_upper (CHR 0x33) = False"
  "is_lower (CHR 0x33) = False"
  "is_digit (CHR 0x33) = True"
  "is_space (CHR 0x33) = False"
  "is_word (CHR 0x33) = True"
  "upper_char (CHR 0x33) = [CHR 0x33]"
  "swap_upper (CHR 0x33) = CHR 0x33"
  "swap_lower (CHR 0x33) = CHR 0x33"
  "is_upper (CHR 0x34) = False"
  "is_lower (CHR 0x34) = False"
  "is_digit (CHR 0x34) = True"
  "is_space (CHR 0x34) = False"
  "is_word (CHR 0x34) = True"
  "upper_char (CHR 0x34) = [CHR 0x34]"
  "swap_upper (CHR 0x34) = CHR 0x34"
  "swap_lower (CHR 0x34) = CHR 0x34"
  "is_upper (CHR 0x35) = False"
  "is_lower (CHR 0x35) = False"
  "is_digit (CHR 0x35) = True"
  "is_space (CHR 0x35) = False"
  "is_word (CHR 0x35) = True"
  "upper_char (CHR 0x35) = [CHR 0x35]"
  "swap_upper (CHR 0x35) = CHR 0x35"
  "swap_lower (CHR 0x35) = CHR 0x35"
  "is_upper (CHR 0x36) = False"
  "is_lower (CHR 0x36) = False"
  "is_digit (CHR 0x36) = True"
  "is_space (CHR 0x36) = False"
  "is_word (CHR 0x36) = True"
  "upper_char (CHR 0x36) = [CHR 0x36]"
  "swap_upper (CHR 0x36) = CHR 0x36"
  "swap_lower (CHR 0x36) = CHR 0x36"
  "is_upper (CHR 0x37) = False"
  "is_lower (CHR 0x37) = False"
  "is_digit (CHR 0x37) = True"
  "is_space (CHR 0x37) = False"
  "is_word (CHR 0x37) = True"
  "upper_char (CHR 0x37) = [CHR 0x37]"
  "swap_upper (CHR 0x37) = CHR 0x37"
  "swap_lower (CHR 0x37) = CHR 0x37"
  "is_upper (CHR 0x38) = False"
  "is_lower (CHR 0x38) = False"
  "is_digit (CHR 0x38) = True"
  "is_space (CHR 0x38) = False"
  "is_word (CHR 0x38) = True"
  "upper_char (CHR 0x38) = [CHR 0x38]"
  "swap_upper (CHR 0x38) = CHR 0x38"
  "swap_lower (CHR 0x38) = CHR 0x38"
  "is_upper (CHR 0x39) = False"
  "is_lower (CHR 0x39) = False"
  "is_digit (CHR 0x39) = True"
  "is_space (CHR 0x39) = False"
  "is_word (CHR 0x39) = True"
  "upper_char (CHR 0x39) = [CHR 0x39]"
  "swap_upper (CHR 0x39) = CHR 0x39"
  "swap_lower (CHR 0x39) = CHR 0x39"
  "is_upper (CHR 0x3A) = False"
  "is_lower (CHR 0x3A) = False"
  "is_digit (CHR 0x3A) = False"
  "is_space (CHR 0x3A) = False"
  "is_word (CHR 0x3A) = False"
  "upper_char (CHR 0x3A) = [CHR 0x3A]"
  "swap_upper (CHR 0x3A) = CHR 0x3A"
  "swap_lower (CHR 0x3A) = CHR 0x3A"
  "is_upper (CHR 0x3B) = False"
  "is_lower (CHR 0x3B) = False"
  "is_digit (CHR 0x3B) = False"
  "is_space (CHR 0x3B) = False"
  "is_word (CHR 0x3B) = False"
  "upper_char (CHR 0x3B) = [CHR 0x3B]"
  "swap_upper (CHR 0x3B) = CHR 0x3B"
  "swap_lower (CHR 0x3B) = CHR 0x3B"
  "is_upper (CHR 0x3C) = False"
  "is_lower (CHR 0x3C) = False"
  "is_digit (CHR 0x3C) = False"
  "is_space (CHR 0x3C) = False"
  "is_word (CHR 0x3C) = False"
  "upper_char (CHR 0x3C) = [CHR 0x3C]"
  "swap_upper (CHR 0x3C) = CHR 0x3C"
  "swap_lower (CHR 0x3C) = CHR 0x3C"
  "is_upper (CHR 0x3D) = False"
  "is_lower (CHR 0x3D) = False"
  "is_digit (CHR 0x3D) = False"
  "is_space (CHR 0x3D) = False"
  "is_word (CHR 0x3D) = False"
  "upper_char (CHR 0x3D) = [CHR 0x3D]"
  "swap_upper (CHR 0x3D) = CHR 0x3D"
  "swap_lower (CHR 0x3D) = CHR 0x3D"
  "is_upper (CHR 0x3E) = False"
  "is_lower (CHR 0x3E) = False"
  "is_digit (CHR 0x3E) = False"
  "is_space (CHR 0x3E) = False"
  "is_word (CHR 0x3E) = False"
  "upper_char (CHR 0x3E) = [CHR 0x3E]"
  "swap_upper (CHR 0x3E) = CHR 0x3E"
  "swap_lower (CHR 0x3E) = CHR 0x3E"
  "is_upper (CHR 0x3F) = False"
  "is_lower (CHR 0x3F) = False"
  "is_digit (CHR 0x3F) = False"
  "is_space (CHR 0x3F) = False"
  "is_word (CHR 0x3F) = False"
  "upper_char (CHR 0x3F) = [CHR 0x3F]"
  "swap_upper (CHR 0x3F) = CHR 0x3F"
  "swap_lower (CHR 0x3F) = CHR 0x3F"
  "is_upper (CHR 0x40) = False"
  "is_lower (CHR 0x40) = False"
  "is_digit (CHR 0x40) = False"
  "is_space (CHR 0x40) = False"
  "is_word (CHR 0x40) = False"
  "upper_char (CHR 0x40) = [CHR 0x40]"
  "swap_upper (CHR 0x40) = CHR 0x40"
  "swap_lower (CHR 0x40) = CHR 0x40"
  "is_upper (CHR 0x41) = True"
  "is_lower (CHR 0x41) = False"
  "is_digit (CHR 0x41) = False"
  "is_space (CHR 0x41) = False"
  "is_word (CHR 0x41) = True"
  "upper_char (CHR 0x41) = [CHR 0x41]"
  "swap_upper (CHR 0x41) = CHR 0x41"
  "swap_lower (CHR 0x41) = CHR 0x61"
  "is_upper (CHR 0x42) = True"
  "is_lower (CHR 0x42) = False"
  "is_digit (CHR 0x42) = False"
  "is_space (CHR 0x42) = False"
  "is_word (CHR 0x42) = True"
  "upper_char (CHR 0x42) = [CHR 0x42]"
  "swap_upper (CHR 0x42) = CHR 0x42"
  "swap_lower (CHR 0x42) = CHR 0x62"
  "is_upper (CHR 0x43) = True"
  "is_lower (CHR 0x43) = False"
  "is_digit (CHR 0x43) = False"
  "is_space (CHR 0x43) = False"
  "is_word (CHR 0x43) = True"
  "upper_char (CHR 0x43) = [CHR 0x43]"
  "swap_upper (CHR 0x43) = CHR 0x43"
  "swap_lower (CHR 0x43) = CHR 0x63"
  "is_upper (CHR 0x44) = True"
  "is_lower (CHR 0x44) = False"
  "is_digit (CHR 0x44) = False"
  "is_space (CHR 0x44) = False"
  "is_word (CHR 0x44) = True"
  "upper_char (CHR 0x44) = [CHR 0x44]"
  "swap_upper (CHR 0x44) = CHR 0x44"
  "swap_lower (CHR 0x44) = CHR 0x64"
  "is_upper (CHR 0x45) = True"
  "is_lower (CHR 0x45) = False"
  "is_digit (CHR 0x45) = False"
  "is_space (CHR 0x45) = False"
  "is_word (CHR 0x45) = True"
  "upper_char (CHR 0x45) = [CHR 0x45]"
  "swap_upper (CHR 0x45) = CHR 0x45"
  "swap_lower (CHR 0x45) = CHR 0x65"
  "is_upper (CHR 0x46) = True"
  "is_lower (CHR 0x46) = False"
  "is_digit (CHR 0x46) = False"
  "is_space (CHR 0x46) = False"
  "is_word (CHR 0x46) = True"
  "upper_char (CHR 0x46) = [CHR 0x46]"
  "swap_upper (CHR 0x46) = CHR 0x46"
  "swap_lower (CHR 0x46) = CHR 0x66"
  "is_upper (CHR 0x47) = True"
  "is_lower (CHR 0x47) = False"
  "is_digit (CHR 0x47) = False"
  "is_space (CHR 0x47) = False"
  "is_word (CHR 0x47) = True"
  "upper_char (CHR 0x47) = [CHR 0x47]"
  "swap_upper (CHR 0x47) = CHR 0x47"
  "swap_lower (CHR 0x47) = CHR 0x67"
  "is_upper (CHR 0x48) = True"
  "is_lower (CHR 0x48) = False"
  "is_digit (CHR 0x48) = False"
  "is_space (CHR 0x48) = False"
  "is_word (CHR 0x48) = True"
  "upper_char (CHR 0x48) = [CHR 0x48]"
  "swap_upper (CHR 0x48) = CHR 0x48"
  "swap_lower (CHR 0x48) = CHR 0x68"
  "is_upper (CHR 0x49) = True"
  "is_lower (CHR 0x49) = False"
  "is_digit (CHR 0x49) = False"
  "is_space (CHR 0x49) = False"
  "is_word (CHR 0x49) = True"
  "upper_char (CHR 0x49) = [CHR 0x49]"
  "swap_upper (CHR 0x49) = CHR 0x49"
  "swap_lower (CHR 0x49) = CHR 0x69"
  "is_upper (CHR 0x4A) = True"
  "is_lower (CHR 0x4A) = False"
  "is_digit (CHR 0x4A) = False"
  "is_space (CHR 0x4A) = False"
  "is_word (CHR 0x4A) = True"
  "upper_char (CHR 0x4A) = [CHR 0x4A]"
  "swap_upper (CHR 0x4A) = CHR 0x4A"
  "swap_lower (CHR 0x4A) = CHR 0x6A"
  "is_upper (CHR 0x4B) = True"
  "is_lower (CHR 0x4B) = False"
  "is_digit (CHR 0x4B) = False"
  "is_space (CHR 0x4B) = False"
  "is_word (CHR 0x4B) = True"
  "upper_char (CHR 0x4B) = [CHR 0x4B]"
  "swap_upper (CHR 0x4B) = CHR 0x4B"
  "swap_lower (CHR 0x4B) = CHR 0x6B"
  "is_upper (CHR 0x4C) = True"
  "is_lower (CHR 0x4C) = False"
  "is_digit (CHR 0x4C) = False"
  "is_space (CHR 0x4C) = False"
  "is_word (CHR 0x4C) = True"
  "upper_char (CHR 0x4C) = [CHR 0x4C]"
  "swap_upper (CHR 0x4C) = CHR 0x4C"
  "swap_lower (CHR 0x4C) = CHR 0x6C"
  "is_upper (CHR 0x4D) = True"
  "is_lower (CHR 0x4D) = False"
  "is_digit (CHR 0x4D) = False"
  "is_space (CHR 0x4D) = False"
  "is_word (CHR 0x4D) = True"
  "upper_char (CHR 0x4D) = [CHR 0x4D]"
  "swap_upper (CHR 0x4D) = CHR 0x4D"
  "swap_lower (CHR 0x4D) = CHR 0x6D"
  "is_upper (CHR 0x4E) = True"
  "is_lower (CHR 0x4E) = False"
  "is_digit (CHR 0x4E) = False"
  "is_space (CHR 0x4E) = False"
  "is_word (CHR 0x4E) = True"
  "upper_char (CHR 0x4E) = [CHR 0x4E]"
  "swap_upper (CHR 0x4E) = CHR 0x4E"
  "swap_lower (CHR 0x4E) = CHR 0x6E"
  "is_upper (CHR 0x4F) = True"
  "is_lower (CHR 0x4F) = False"
  "is_digit (CHR 0x4F) = False"
  "is_space (CHR 0x4F) = False"
  "is_word (CHR 0x4F) = True"
  "upper_char (CHR 0x4F) = [CHR 0x4F]"
  "swap_upper (CHR 0x4F) = CHR 0x4F"
  "swap_lower (CHR 0x4F) = CHR 0x6F"
  "is_upper (CHR 0x50) = True"
  "is_lower (CHR 0x50) = False"
  "is_digit (CHR 0x50) = False"
  "is_space (CHR 0x50) = False"
  "is_word (CHR 0x50) = True"
  "upper_char (CHR 0x50) = [CHR 0x50]"
  "swap_upper (CHR 0x50) = CHR 0x50"
  "swap_lower (CHR 0x50) = CHR 0x70"
  "is_upper (CHR 0x51) = True"
  "is_lower (CHR 0x51) = False"
  "is_digit (CHR 0x51) = False"
  "is_space (CHR 0x51) = False"
  "is_word (CHR 0x51) = True"
  "upper_char (CHR 0x51) = [CHR 0x51]"
  "swap_upper (CHR 0x51) = CHR 0x51"
  "swap_lower (CHR 0x51) = CHR 0x71"
  "is_upper (CHR 0x52) = True"
  "is_lower (CHR 0x52) = False"
  "is_digit (CHR 0x52) = False"
  "is_space (CHR 0x52) = False"
  "is_word (CHR 0x52) = True"
  "upper_char (CHR 0x52) = [CHR 0x52]"
  "swap_upper (CHR 0x52) = CHR 0x52"
  "swap_lower (CHR 0x52) = CHR 0x72"
  "is_upper (CHR 0x53) = True"
  "is_lower (CHR 0x53) = False"
  "is_digit (CHR 0x53) = False"
  "is_space (CHR 0x53) = False"
  "is_word (CHR 0x53) = True"
  "upper_char (CHR 0x53) = [CHR 0x53]"
  "swap_upper (CHR 0x53) = CHR 0x53"
  "swap_lower (CHR 0x53) = CHR 0x73"
  "is_upper (CHR 0x54) = True"
  "is_lower (CHR 0x54) = False"
  "is_digit (CHR 0x54) = False"
  "is_space (CHR 0x54) = False"
  "is_word (CHR 0x54) = True"
  "upper_char (CHR 0x54) = [CHR 0x54]"
  "swap_upper (CHR 0x54) = CHR 0x54"
  "swap_lower (CHR 0x54) = CHR 0x74"
  "is_upper (CHR 0x55) = True"
  "is_lower (CHR 0x55) = False"
  "is_digit (CHR 0x55) = False"
  "is_space (CHR 0x55) = False"
  "is_word (CHR 0x55) = True"
  "upper_char (CHR 0x55) = [CHR 0x55]"
  "swap_upper (CHR 0x55) = CHR 0x55"
  "swap_lower (CHR 0x55) = CHR 0x75"
  "is_upper (CHR 0x56) = True"
  "is_lower (CHR 0x56) = False"
  "is_digit (CHR 0x56) = False"
  "is_space (CHR 0x56) = False"
  "is_word (CHR 0x56) = True"
  "upper_char (CHR 0x56) = [CHR 0x56]"
  "swap_upper (CHR 0x56) = CHR 0x56"
  "swap_lower (CHR 0x56) = CHR 0x76"
  "is_upper (CHR 0x57) = True"
  "is_lower (CHR 0x57) = False"
  "is_digit (CHR 0x57) = False"
  "is_space (CHR 0x57) = False"
  "is_word (CHR 0x57) = True"
  "upper_char (CHR 0x57) = [CHR 0x57]"
  "swap_upper (CHR 0x57) = CHR 0x57"
  "swap_lower (CHR 0x57) = CHR 0x77"
  "is_upper (CHR 0x58) = True"
  "is_lower (CHR 0x58) = False"
  "is_digit (CHR 0x58) = False"
  "is_space (CHR 0x58) = False"
  "is_word (CHR 0x58) = True"
  "upper_char (CHR 0x58) = [CHR 0x58]"
  "swap_upper (CHR 0x58) = CHR 0x58"
  "swap_lower (CHR 0x58) = CHR 0x78"
  "is_upper (CHR 0x59) = True"
  "is_lower (CHR 0x59) = False"
  "is_digit (CHR 0x59) = False"
  "is_space (CHR 0x59) = False"
  "is_word (CHR 0x59) = True"
  "upper_char (CHR 0x59) = [CHR 0x59]"
  "swap_upper (CHR 0x59) = CHR 0x59"
  "swap_lower (CHR 0x59) = CHR 0x79"
  "is_upper (CHR 0x5A) = True"
  "is_lower (CHR 0x5A) = False"
  "is_digit (CHR 0x5A) = False"
  "is_space (CHR 0x5A) = False"
  "is_word (CHR 0x5A) = True"
  "upper_char (CHR 0x5A) = [CHR 0x5A]"
  "swap_upper (CHR 0x5A) = CHR 0x5A"
  "swap_lower (CHR 0x5A) = CHR 0x7A"
  "is_upper (CHR 0x5B) = False"
  "is_lower (CHR 0x5B) = False"
  "is_digit (CHR 0x5B) = False"
  "is_space (CHR 0x5B) = False"
  "is_word (CHR 0x5B) = False"
  "upper_char (CHR 0x5B) = [CHR 0x5B]"
  "swap_upper (CHR 0x5B) = CHR 0x5B"
  "swap_lower (CHR 0x5B) = CHR 0x5B"
  "is_upper (CHR 0x5C) = False"
  "is_lower (CHR 0x5C) = False"
  "is_digit (CHR 0x5C) = False"
  "is_space (CHR 0x5C) = False"
  "is_word (CHR 0x5C) = False"
  "upper_char (CHR 0x5C) = [CHR 0x5C]"
  "swap_upper (CHR 0x5C) = CHR 0x5C"
  "swap_lower (CHR 0x5C) = CHR 0x5C"
  "is_upper (CHR 0x5D) = False"
  "is_lower (CHR 0x5D) = False"
  "is_digit (CHR 0x5D) = False"
  "is_space (CHR 0x5D) = False"
  "is_word (CHR 0x5D) = False"
  "upper_char (CHR 0x5D) = [CHR 0x5D]"
  "swap_upper (CHR 0x5D) = CHR 0x5D"
  "swap_lower (CHR 0x5D) = CHR 0x5D"
  "is_upper (CHR 0x5E) = False"
  "is_lower (CHR 0x5E) = False"
  "is_digit (CHR 0x5E) = False"
  "is_space (CHR 0x5E) = False"
  "is_word (CHR 0x5E) = False"
  "upper_char (CHR 0x5E) = [CHR 0x5E]"
  "swap_upper (CHR 0x5E) = CHR 0x5E"
  "swap_lower (CHR 0x5E) = CHR 0x5E"
  "is_upper (CHR 0x5F) = False"
  "is_lower (CHR 0x5F) = False"
  "is_digit (CHR 0x5F) = False"
  "is_space (CHR 0x5F) = False"
  "is_word (CHR 0x5F) = True"
  "upper_char (CHR 0x5F) = [CHR 0x5F]"
  "swap_upper (CHR 0x5F) = CHR 0x5F"
  "swap_lower (CHR 0x5F) = CHR 0x5F"
  "is_upper (CHR 0x60) = False"
  "is_lower (CHR 0x60) = False"
  "is_digit (CHR 0x60) = False"
  "is_space (CHR 0x60) = False"
  "is_word (CHR 0x60) = False"
  "upper_char (CHR 0x60) = [CHR 0x60]"
  "swap_upper (CHR 0x60) = CHR 0x60"
  "swap_lower (CHR 0x60) = CHR 0x60"
  "is_upper (CHR 0x61) = False"
  "is_lower (CHR 0x61) = True"
  "is_digit (CHR 0x61) = False"
  "is_space (CHR 0x61) = False"
  "is_word (CHR 0x61) = True"
  "upper_char (CHR 0x61) = [CHR 0x41]"
  "swap_upper (CHR 0x61) = CHR 0x41"
  "swap_lower (CHR 0x61) = CHR 0x61"
  "is_upper (CHR 0x62) = False"
  "is_lower (CHR 0x62) = True"
  "is_digit (CHR 0x62) = False"
  "is_space (CHR 0x62) = False"
  "is_word (CHR 0x62) = True"
  "upper_char (CHR 0x62) = [CHR 0x42]"
  "swap_upper (CHR 0x62) = CHR 0x42"
  "swap_lower (CHR 0x62) = CHR 0x62"
  "is_upper (CHR 0x63) = False"
  "is_lower (CHR 0x63) = True"
  "is_digit (CHR 0x63) = False"
  "is_space (CHR 0x63) = False"
  "is_word (CHR 0x63) = True"
  "upper_char (CHR 0x63) = [CHR 0x43]"
  "swap_upper (CHR 0x63) = CHR 0x43"
  "swap_lower (CHR 0x63) = CHR 0x63"
  "is_upper (CHR 0x64) = False"
  "is_lower (CHR 0x64) = True"
  "is_digit (CHR 0x64) = False"
  "is_space (CHR 0x64) = False"
  "is_word (CHR 0x64) = True"
  "upper_char (CHR 0x64) = [CHR 0x44]"
  "swap_upper (CHR 0x64) = CHR 0x44"
  "swap_lower (CHR 0x64) = CHR 0x64"
  "is_upper (CHR 0x65) = False"
  "is_lower (CHR 0x65) = True"
  "is_digit (CHR 0x65) = False"
  "is_space (CHR 0x65) = False"
  "is_word (CHR 0x65) = True"
  "upper_char (CHR 0x65) = [CHR 0x45]"
  "swap_upper (CHR 0x65) = CHR 0x45"
  "swap_lower (CHR 0x65) = CHR 0x65"
  "is_upper (CHR 0x66) = False"
  "is_lower (CHR 0x66) = True"
  "is_digit (CHR 0x66) = False"
  "is_space (CHR 0x66) = False"
  "is_word (CHR 0x66) = True"
  "upper_char (CHR 0x66) = [CHR 0x46]"
  "swap_upper (CHR 0x66) = CHR 0x46"
  "swap_lower (CHR 0x66) = CHR 0x66"
  "is_upper (CHR 0x67) = False"
  "is_lower (CHR 0x67) = True"
  "is_digit (CHR 0x67) = False"
  "is_space (CHR 0x67) = False"
  "is_word (CHR 0x67) = True"
  "upper_char (CHR 0x67) = [CHR 0x47]"
  "swap_upper (CHR 0x67) = CHR 0x47"
  "swap_lower (CHR 0x67) = CHR 0x67"
  "is_upper (CHR 0x68) = False"
  "is_lower (CHR 0x68) = True"
  "is_digit (CHR 0x68) = False"
  "is_space (CHR 0x68) = False"
  "is_word (CHR 0x68) = True"
  "upper_char (CHR 0x68) = [CHR 0x48]"
  "swap_upper (CHR 0x68) = CHR 0x48"
  "swap_lower (CHR 0x68) = CHR 0x68"
  "is_upper (CHR 0x69) = False"
  "is_lower (CHR 0x69) = True"
  "is_digit (CHR 0x69) = False"
  "is_space (CHR 0x69) = False"
  "is_word (CHR 0x69) = True"
  "upper_char (CHR 0x69) = [CHR 0x49]"
  "swap_upper (CHR 0x69) = CHR 0x49"
  "swap_lower (CHR 0x69) = CHR 0x69"
  "is_upper (CHR 0x6A) = False"
  "is_lower (CHR 0x6A) = True"
  "is_digit (CHR 0x6A) = False"
  "is_space (CHR 0x6A) = False"
  "is_word (CHR 0x6A) = True"
  "upper_char (CHR 0x6A) = [CHR 0x4A]"
  "swap_upper (CHR 0x6A) = CHR 0x4A"
  "swap_lower (CHR 0x6A) = CHR 0x6A"
  "is_upper (CHR 0x6B) = False"
  "is_lower (CHR 0x6B) = True"
  "is_digit (CHR 0x6B) = False"
  "is_space (CHR 0x6B) = False"
  "is_word (CHR 0x6B) = True"
  "upper_char (CHR 0x6B) = [CHR 0x4B]"
  "swap_upper (CHR 0x6B) = CHR 0x4B"
  "swap_lower (CHR 0x6B) = CHR 0x6B"
  "is_upper (CHR 0x6C) = False"
  "is_lower (CHR 0x6C) = True"
  "is_digit (CHR 0x6C) = False"
  "is_space (CHR 0x6C) = False"
  "is_word (CHR 0x6C) = True"
  "upper_char (CHR 0x6C) = [CHR 0x4C]"
  "swap_upper (CHR 0x6C) = CHR 0x4C"
  "swap_lower (CHR 0x6C) = CHR 0x6C"
  "is_upper (CHR 0x6D) = False"
  "is_lower (CHR 0x6D) = True"
  "is_digit (CHR 0x6D) = False"
  "is_space (CHR 0x6D) = False"
  "is_word (CHR 0x6D) = True"
  "upper_char (CHR 0x6D) = [CHR 0x4D]"
  "swap_upper (CHR 0x6D) = CHR 0x4D"
  "swap_lower (CHR 0x6D) = CHR 0x6D"
  "is_upper (CHR 0x6E) = False"
  "is_lower (CHR 0x6E) = True"
  "is_digit (CHR 0x6E) = False"
  "is_space (CHR 0x6E) = False"
  "is_word (CHR 0x6E) = True"
  "upper_char (CHR 0x6E) = [CHR 0x4E]"
  "swap_upper (CHR 0x6E) = CHR 0x4E"
  "swap_lower (CHR 0x6E) = CHR 0x6E"
  "is_upper (CHR 0x6F) = False"
  "is_lower (CHR 0x6F) = True"
  "is_digit (CHR 0x6F) = False"
  "is_space (CHR 0x6F) = False"
  "is_word (CHR 0x6F) = True"
  "upper_char (CHR 0x6F) = [CHR 0x4F]"
  "swap_upper (CHR 0x6F) = CHR 0x4F"
  "swap_lower (CHR 0x6F) = CHR 0x6F"
  "is_upper (CHR 0x70) = False"
  "is_lower (CHR 0x70) = True"
  "is_digit (CHR 0x70) = False"
  "is_space (CHR 0x70) = False"
  "is_word (CHR 0x70) = True"
  "upper_char (CHR 0x70) = [CHR 0x50]"
  "swap_upper (CHR 0x70) = CHR 0x50"
  "swap_lower (CHR 0x70) = CHR 0x70"
  "is_upper (CHR 0x71) = False"
  "is_lower (CHR 0x71) = True"
  "is_digit (CHR 0x71) = False"
  "is_space (CHR 0x71) = False"
  "is_word (CHR 0x71) = True"
  "upper_char (CHR 0x71) = [CHR 0x51]"
  "swap_upper (CHR 0x71) = CHR 0x51"
  "swap_lower (CHR 0x71) = CHR 0x71"
  "is_upper (CHR 0x72) = False"
  "is_lower (CHR 0x72) = True"
  "is_digit (CHR 0x72) = False"
  "is_space (CHR 0x72) = False"
  "is_word (CHR 0x72) = True"
  "upper_char (CHR 0x72) = [CHR 0x52]"
  "swap_upper (CHR 0x72) = CHR 0x52"
  "swap_lower (CHR 0x72) = CHR 0x72"
  "is_upper (CHR 0x73) = False"
  "is_lower (CHR 0x73) = True"
  "is_digit (CHR 0x73) = False"
  "is_space (CHR 0x73) = False"
  "is_word (CHR 0x73) = True"
  "upper_char (CHR 0x73) = [CHR 0x53]"
  "swap_upper (CHR 0x73) = CHR 0x53"
  "swap_lower (CHR 0x73) = CHR 0x73"
  "is_upper (CHR 0x74) = False"
  "is_lower (CHR 0x74) = True"
  "is_digit (CHR 0x74) = False"
  "is_space (CHR 0x74) = False"
  "is_word (CHR 0x74) = True"
  "upper_char (CHR 0x74) = [CHR 0x54]"
  "swap_upper (CHR 0x74) = CHR 0x54"
  "swap_lower (CHR 0x74) = CHR 0x74"
  "is_upper (CHR 0x75) = False"
  "is_lower (CHR 0x75) = True"
  "is_digit (CHR 0x75) = False"
  "is_space (CHR 0x75) = False"
  "is_word (CHR 0x75) = True"
  "upper_char (CHR 0x75) = [CHR 0x55]"
  "swap_upper (CHR 0x75) = CHR 0x55"
  "swap_lower (CHR 0x75) = CHR 0x75"
  "is_upper (CHR 0x76) = False"
  "is_lower (CHR 0x76) = True"
  "is_digit (CHR 0x76) = False"
  "is_space (CHR 0x76) = False"
  "is_word (CHR 0x76) = True"
  "upper_char (CHR 0x76) = [CHR 0x56]"
  "swap_upper (CHR 0x76) = CHR 0x56"
  "swap_lower (CHR 0x76) = CHR 0x76"
  "is_upper (CHR 0x77) = False"
  "is_lower (CHR 0x77) = True"
  "is_digit (CHR 0x77) = False"
  "is_space (CHR 0x77) = False"
  "is_word (CHR 0x77) = True"
  "upper_char (CHR 0x77) = [CHR 0x57]"
  "swap_upper (CHR 0x77) = CHR 0x57"
  "swap_lower (CHR 0x77) = CHR 0x77"
  "is_upper (CHR 0x78) = False"
  "is_lower (CHR 0x78) = True"
  "is_digit (CHR 0x78) = False"
  "is_space (CHR 0x78) = False"
  "is_word (CHR 0x78) = True"
  "upper_char (CHR 0x78) = [CHR 0x58]"
  "swap_upper (CHR 0x78) = CHR 0x58"
  "swap_lower (CHR 0x78) = CHR 0x78"
  "is_upper (CHR 0x79) = False"
  "is_lower (CHR 0x79) = True"
  "is_digit (CHR 0x79) = False"
  "is_space (CHR 0x79) = False"
  "is_word (CHR 0x79) = True"
  "upper_char (CHR 0x79) = [CHR 0x59]"
  "swap_upper (CHR 0x79) = CHR 0x59"
  "swap_lower (CHR 0x79) = CHR 0x79"
  "is_upper (CHR 0x7A) = False"
  "is_lower (CHR 0x7A) = True"
  "is_digit (CHR 0x7A) = False"
  "is_space (CHR 0x7A) = False"
  "is_word (CHR 0x7A) = True"
  "upper_char (CHR 0x7A) = [CHR 0x5A]"
  "swap_upper (CHR 0x7A) = CHR 0x5A"
  "swap_lower (CHR 0x7A) = CHR 0x7A"
  "is_upper (CHR 0x7B) = False"
  "is_lower (CHR 0x7B) = False"
  "is_digit (CHR 0x7B) = False"
  "is_space (CHR 0x7B) = False"
  "is_word (CHR 0x7B) = False"
  "upper_char (CHR 0x7B) = [CHR 0x7B]"
  "swap_upper (CHR 0x7B) = CHR 0x7B"
  "swap_lower (CHR 0x7B) = CHR 0x7B"
  "is_upper (CHR 0x7C) = False"
  "is_lower (CHR 0x7C) = False"
  "is_digit (CHR 0x7C) = False"
  "is_space (CHR 0x7C) = False"
  "is_word (CHR 0x7C) = False"
  "upper_char (CHR 0x7C) = [CHR 0x7C]"
  "swap_upper (CHR 0x7C) = CHR 0x7C"
  "swap_lower (CHR 0x7C) = CHR 0x7C"
  "is_upper (CHR 0x7D) = False"
  "is_lower (CHR 0x7D) = False"
  "is_digit (CHR 0x7D) = False"
  "is_space (CHR 0x7D) = False"
  "is_word (CHR 0x7D) = False"
  "upper_char (CHR 0x7D) = [CHR 0x7D]"
  "swap_upper (CHR 0x7D) = CHR 0x7D"
  "swap_lower (CHR 0x7D) = CHR 0x7D"
  "is_upper (CHR 0x7E) = False"
  "is_lower (CHR 0x7E) = False"
  "is_digit (CHR 0x7E) = False"
  "is_space (CHR 0x7E) = False"
  "is_word (CHR 0x7E) = False"
  "upper_char (CHR 0x7E) = [CHR 0x7E]"
  "swap_upper (CHR 0x7E) = CHR 0x7E"
  "swap_lower (CHR 0x7E) = CHR 0x7E"
  by (simp_all add: is_upper_def is_lower_def is_digit_def is_space_def is_word_def
      is_latin1_alnum_def upper_char_def swap_upper_def swap_lower_def code_def char_of_eq_iff)

lemmas eval_chars = char_table code_def item_match_def word_boundary_def newline_def Let_def

lemmas eval_patterns = pattern_parts program_pattern_def procedure_pattern_def
  function_pattern_def task_pattern_def compool_pattern_def simple_declare_pattern_def
  array_declare_pattern_def constant_declare_pattern_def vector_declare_pattern_def
  matrix_declare_pattern_def structure_pattern_def replace_pattern_def label_pattern_def
  reference_pattern_def comment_pattern_def

lemmas eval_entries = program_entry_def procedure_entry_def function_entry_def task_entry_def
  compool_entry_def simple_declare_entry_def array_declare_entry_def
  constant_declare_entry_def vector_declare_entry_def matrix_declare_entry_def
  structure_entry_def replace_entry_def label_entry_def reference_entry_def
  entry_writes_def entry_refs_def pass_writes_def init_def set_symbol_def new_symbol_def
  find_position_def rfind_def dict_has_def unit_keywords_def startswith_def slice_def
  strip_def upper_def split_strip_def

lemmas eval_cleaned = cleaned_def preprocess_multiline_def preprocess_line_def
  remove_comments_def re_sub_def sub_from.simps

section \<open>Determinism and idempotence of parse\<close>

lemma reset_independent: "reset P text = reset P' text"
  by (cases P, cases P') (simp add: reset_def)

text \<open>
  Claim C4. The state after \<open>parse(T)\<close> is a function of \<open>T\<close> alone: it is the same whatever
  the parser held before (in particular the state left by an earlier text), and parsing \<open>T\<close>
  again from the state \<open>parse(T)\<close> left gives that state back. The state compared is the whole
  parser: symbol table with its order and positions, reference list, diagnostic list and
  line array.
\<close>

theorem parse_deterministic_idempotent:
  "parse P text = parse P' text \<and> (\<exists>Q. parse P text = Inr Q \<and> parse Q text = Inr Q)"
proof
  show det: "parse P text = parse P' text"
    unfolding parse_def Let_def by (simp add: reset_independent[of P "text" P'])
  obtain Q where Q: "parse P text = Inr Q" using parse_eq[of P "text"] by blast
  have "parse Q text = parse P text"
    unfolding parse_def Let_def by (simp add: reset_independent[of Q "text" P])
  then show "\<exists>Q. parse P text = Inr Q \<and> parse Q text = Inr Q" using Q by simp
qed

section \<open>The diagnostic list\<close>

lemma parse_diagnostics: "parse P text = Inr Q \<Longrightarrow> diagnostics Q = []"
  using parse_eq[of P "text"] by auto

text \<open>
  Claim C8. After every call of \<open>parse\<close>, on any text and from any earlier state, the
  diagnostics accessor returns the empty list; and each pass of the pipeline (the nine
  extraction passes and the reference pass) returns normally with the diagnostic list it was
  given.
\<close>

theorem diagnostics_always_empty:
  "(\<exists>Q. parse P text = Inr Q \<and> get_diagnostics Q = []) \<and>
   list_all (\<lambda>f. \<forall>P0. \<exists>Q. f P0 = Inr Q \<and> diagnostics Q = diagnostics P0)
     (extraction_passes t @ [parse_references t])"
proof
  obtain Q where Q: "parse P text = Inr Q" using parse_eq[of P "text"] by blast
  then show "\<exists>Q. parse P text = Inr Q \<and> get_diagnostics Q = []"
    using parse_diagnostics[OF Q] by (simp add: get_diagnostics_def)
  show "list_all (\<lambda>f. \<forall>P0. \<exists>Q. f P0 = Inr Q \<and> diagnostics Q = diagnostics P0)
     (extraction_passes t @ [parse_references t])"
    unfolding extraction_passes_def
    by (simp add: parse_programs_eq parse_procedures_eq parse_functions_eq parse_tasks_eq
          parse_compools_eq parse_declares_eq parse_structures_eq parse_replaces_eq
          parse_labels_eq parse_references_eq)
qed

section \<open>The entries a recognizer writes\<close>

lemma pass_found_general:
  assumes "\<And>m. m \<in> set ms \<Longrightarrow>
      map digest (entry_writes e m) = [(match_name m, k, find_position t (mstart m))] \<and>
      list_all named (entry_writes e m)"
  shows "map digest (concat (map (entry_writes e) ms)) =
           map (\<lambda>m. (match_name m, k, find_position t (mstart m))) ms \<and>
         list_all named (concat (map (entry_writes e) ms))"
  using assms by (induction ms) simp_all

lemma program_entry_found:
  "mgroup m 1 \<noteq> None \<Longrightarrow>
   map digest (entry_writes (program_entry t) m) = [(match_name m, PROGRAM, find_position t (mstart m))] \<and>
   list_all named (entry_writes (program_entry t) m)"
  by (auto simp: program_entry_def entry_writes_def set_symbol_def init_def Let_def digest_def
        named_def match_name_def new_symbol_def split: prod.splits option.splits)

lemma program_pass_found:
  "map digest (pass_writes program_pattern program_entry t) = found program_pattern PROGRAM t \<and>
   list_all named (pass_writes program_pattern program_entry t)"
  unfolding pass_writes_def found_def
proof (rule pass_found_general)
  fix m
  assume m: "m \<in> set (finditer True program_pattern t)"
  have g1: "mgroup m 1 \<noteq> None"
    by (rule finditer_groups[OF m]) (simp add: program_pattern_def pattern_parts)
  show "map digest (entry_writes (program_entry t) m) =
          [(match_name m, PROGRAM, find_position t (mstart m))] \<and>
        list_all named (entry_writes (program_entry t) m)"
    by (rule program_entry_found) (fact g1)+
qed

lemma procedure_entry_found:
  "mgroup m 1 \<noteq> None \<Longrightarrow>
   map digest (entry_writes (procedure_entry t) m) = [(match_name m, PROCEDURE, find_position t (mstart m))] \<and>
   list_all named (entry_writes (procedure_entry t) m)"
  by (auto simp: procedure_entry_def entry_writes_def set_symbol_def init_def Let_def digest_def
        named_def match_name_def new_symbol_def split: prod.splits option.splits)

lemma procedure_pass_found:
  "map digest (pass_writes procedure_pattern procedure_entry t) = found procedure_pattern PROCEDURE t \<and>
   list_all named (pass_writes procedure_pattern procedure_entry t)"
  unfolding pass_writes_def found_def
proof (rule pass_found_general)
  fix m
  assume m: "m \<in> set (finditer True procedure_pattern t)"
  have g1: "mgroup m 1 \<noteq> None"
    by (rule finditer_groups[OF m]) (simp add: procedure_pattern_def pattern_parts)
  show "map digest (entry_writes (procedure_entry t) m) =
          [(match_name m, PROCEDURE, find_position t (mstart m))] \<and>
        list_all named (entry_writes (procedure_entry t) m)"
    by (rule procedure_entry_found) (fact g1)+
qed

lemma function_entry_found:
  "mgroup m 1 \<noteq> None \<Longrightarrow>
   map digest (entry_writes (function_entry t) m) = [(match_name m, FUNCTION, find_position t (mstart m))] \<and>
   list_all named (entry_writes (function_entry t) m)"
  by (auto simp: function_entry_def entry_writes_def set_symbol_def init_def Let_def digest_def
        named_def match_name_def new_symbol_def split: prod.splits option.splits)

lemma function_pass_found:
  "map digest (pass_writes function_pattern function_entry t) = found function_pattern FUNCTION t \<and>
   list_all named (pass_writes function_pattern function_entry t)"
  unfolding pass_writes_def found_def
proof (rule pass_found_general)
  fix m
  assume m: "m \<in> set (finditer True function_pattern t)"
  have g1: "mgroup m 1 \<noteq> None"
    by (rule finditer_groups[OF m]) (simp add: function_pattern_def pattern_parts)
  show "map digest (entry_writes (function_entry t) m) =
          [(match_name m, FUNCTION, find_position t (mstart m))] \<and>
        list_all named (entry_writes (function_entry t) m)"
    by (rule function_entry_found) (fact g1)+
qed

lemma task_entry_found:
  "mgroup m 1 \<noteq> None \<Longrightarrow>
   map digest (entry_writes (task_entry t) m) = [(match_name m, TASK, find_position t (mstart m))] \<and>
   list_all named (entry_writes (task_entry t) m)"
  by (auto simp: task_entry_def entry_writes_def set_symbol_def init_def Let_def digest_def
        named_def match_name_def new_symbol_def split: prod.splits option.splits)

lemma task_pass_found:
  "map digest (pass_writes task_pattern task_entry t) = found task_pattern TASK t \<and>
   list_all named (pass_writes task_pattern task_entry t)"
  unfolding pass_writes_def found_def
proof (rule pass_found_general)
  fix m
  assume m: "m \<in> set (finditer True task_pattern t)"
  have g1: "mgroup m 1 \<noteq> None"
    by (rule finditer_groups[OF m]) (simp add: task_pattern_def pattern_parts)
  show "map digest (entry_writes (task_entry t) m) =
          [(match_name m, TASK, find_position t (mstart m))] \<and>
        list_all named (entry_writes (task_entry t) m)"
    by (rule task_entry_found) (fact g1)+
qed

lemma compool_entry_found:
  "mgroup m 1 \<noteq> None \<Longrightarrow>
   map digest (entry_writes (compool_entry t) m) = [(match_name m, COMPOOL, find_position t (mstart m))] \<and>
   list_all named (entry_writes (compool_entry t) m)"
  by (auto simp: compool_entry_def entry_writes_def set_symbol_def init_def Let_def digest_def
        named_def match_name_def new_symbol_def split: prod.splits option.splits)

lemma compool_pass_found:
  "map digest (pass_writes compool_pattern compool_entry t) = found compool_pattern COMPOOL t \<and>
   list_all named (pass_writes compool_pattern compool_entry t)"
  unfolding pass_writes_def found_def
proof (rule pass_found_general)
  fix m
  assume m: "m \<in> set (finditer True compool_pattern t)"
  have g1: "mgroup m 1 \<noteq> None"
    by (rule finditer_groups[OF m]) (simp add: compool_pattern_def pattern_parts)
  show "map digest (entry_writes (compool_entry t) m) =
          [(match_name m, COMPOOL, find_position t (mstart m))] \<and>
        list_all named (entry_writes (compool_entry t) m)"
    by (rule compool_entry_found) (fact g1)+
qed

lemma simple_declare_entry_found:
  "mgroup m 1 \<noteq> None \<Longrightarrow> mgroup m 2 \<noteq> None \<Longrightarrow>
   map digest (entry_writes (simple_declare_entry t) m) = [(match_name m, VARIABLE, find_position t (mstart m))] \<and>
   list_all named (entry_writes (simple_declare_entry t) m)"
  by (auto simp: simple_declare_entry_def entry_writes_def set_symbol_def init_def Let_def digest_def
        named_def match_name_def new_symbol_def split: prod.splits option.splits)

lemma simple_declare_pass_found:
  "map digest (pass_writes simple_declare_pattern simple_declare_entry t) = found simple_declare_pattern VARIABLE t \<and>
   list_all named (pass_writes simple_declare_pattern simple_declare_entry t)"
  unfolding pass_writes_def found_def
proof (rule pass_found_general)
  fix m
  assume m: "m \<in> set (finditer True simple_declare_pattern t)"
  have g1: "mgroup m 1 \<noteq> None"
    by (rule finditer_groups[OF m]) (simp add: simple_declare_pattern_def pattern_parts)
  have g2: "mgroup m 2 \<noteq> None"
    by (rule finditer_groups[OF m]) (simp add: simple_declare_pattern_def pattern_parts)
  show "map digest (entry_writes (simple_declare_entry t) m) =
          [(match_name m, VARIABLE, find_position t (mstart m))] \<and>
        list_all named (entry_writes (simple_declare_entry t) m)"
    by (rule simple_declare_entry_found) (fact g1 g2)+
qed

lemma array_declare_entry_found:
  "mgroup m 1 \<noteq> None \<Longrightarrow> mgroup m 2 \<noteq> None \<Longrightarrow> mgroup m 3 \<noteq> None \<Longrightarrow>
   map digest (entry_writes (array_declare_entry t) m) = [(match_name m, VARIABLE, find_position t (mstart m))] \<and>
   list_all named (entry_writes (array_declare_entry t) m)"
  by (auto simp: array_declare_entry_def entry_writes_def set_symbol_def init_def Let_def digest_def
        named_def match_name_def new_symbol_def split: prod.splits option.splits)

lemma array_declare_pass_found:
  "map digest (pass_writes array_declare_pattern array_declare_entry t) = found array_declare_pattern VARIABLE t \<and>
   list_all named (pass_writes array_declare_pattern array_declare_entry t)"
  unfolding pass_writes_def found_def
proof (rule pass_found_general)
  fix m
  assume m: "m \<in> set (finditer True array_declare_pattern t)"
  have g1: "mgroup m 1 \<noteq> None"
    by (rule finditer_groups[OF m]) (simp add: array_declare_pattern_def pattern_parts)
  have g2: "mgroup m 2 \<noteq> None"
    by (rule finditer_groups[OF m]) (simp add: array_declare_pattern_def pattern_parts)
  have g3: "mgroup m 3 \<noteq> None"
    by (rule finditer_groups[OF m]) (simp add: array_declare_pattern_def pattern_parts)
  show "map digest (entry_writes (array_declare_entry t) m) =
          [(match_name m, VARIABLE, find_position t (mstart m))] \<and>
        list_all named (entry_writes (array_declare_entry t) m)"
    by (rule array_declare_entry_found) (fact g1 g2 g3)+
qed

lemma constant_declare_entry_found:
  "mgroup m 1 \<noteq> None \<Longrightarrow> mgroup m 2 \<noteq> None \<Longrightarrow>
   map digest (entry_writes (constant_declare_entry t) m) = [(match_name m, CONSTANT, find_position t (mstart m))] \<and>
   list_all named (entry_writes (constant_declare_entry t) m)"
  by (auto simp: constant_declare_entry_def entry_writes_def set_symbol_def init_def Let_def digest_def
        named_def match_name_def new_symbol_def split: prod.splits option.splits)

lemma constant_declare_pass_found:
  "map digest (pass_writes constant_declare_pattern constant_declare_entry t) = found constant_declare_pattern CONSTANT t \<and>
   list_all named (pass_writes constant_declare_pattern constant_declare_entry t)"
  unfolding pass_writes_def found_def
proof (rule pass_found_general)
  fix m
  assume m: "m \<in> set (finditer True constant_declare_pattern t)"
  have g1: "mgroup m 1 \<noteq> None"
    by (rule finditer_groups[OF m]) (simp add: constant_declare_pattern_def pattern_parts)
  have g2: "mgroup m 2 \<noteq> None"
    by (rule finditer_groups[OF m]) (simp add: constant_declare_pattern_def pattern_parts)
  show "map digest (entry_writes (constant_declare_entry t) m) =
          [(match_name m, CONSTANT, find_position t (mstart m))] \<and>
        list_all named (entry_writes (constant_declare_entry t) m)"
    by (rule constant_declare_entry_found) (fact g1 g2)+
qed

lemma vector_declare_entry_found:
  "mgroup m 1 \<noteq> None \<Longrightarrow> mgroup m 2 \<noteq> None \<Longrightarrow>
   map digest (entry_writes (vector_declare_entry t) m) = [(match_name m, VARIABLE, find_position t (mstart m))] \<and>
   list_all named (entry_writes (vector_declare_entry t) m)"
  by (auto simp: vector_declare_entry_def entry_writes_def set_symbol_def init_def Let_def digest_def
        named_def match_name_def new_symbol_def split: prod.splits option.splits)

lemma vector_declare_pass_found:
  "map digest (pass_writes vector_declare_pattern vector_declare_entry t) = found vector_declare_pattern VARIABLE t \<and>
   list_all named (pass_writes vector_declare_pattern vector_declare_entry t)"
  unfolding pass_writes_def found_def
proof (rule pass_found_general)
  fix m
  assume m: "m \<in> set (finditer True vector_declare_pattern t)"
  have g1: "mgroup m 1 \<noteq> None"
    by (rule finditer_groups[OF m]) (simp add: vector_declare_pattern_def pattern_parts)
  have g2: "mgroup m 2 \<noteq> None"
    by (rule finditer_groups[OF m]) (simp add: vector_declare_pattern_def pattern_parts)
  show "map digest (entry_writes (vector_declare_entry t) m) =
          [(match_name m, VARIABLE, find_position t (mstart m))] \<and>
        list_all named (entry_writes (vector_declare_entry t) m)"
    by (rule vector_declare_entry_found) (fact g1 g2)+
qed

lemma matrix_declare_entry_found:
  "mgroup m 1 \<noteq> None \<Longrightarrow> mgroup m 2 \<noteq> None \<Longrightarrow> mgroup m 3 \<noteq> None \<Longrightarrow>
   map digest (entry_writes (matrix_declare_entry t) m) = [(match_name m, VARIABLE, find_position t (mstart m))] \<and>
   list_all named (entry_writes (matrix_declare_entry t) m)"
  by (auto simp: matrix_declare_entry_def entry_writes_def set_symbol_def init_def Let_def digest_def
        named_def match_name_def new_symbol_def split: prod.splits option.splits)

lemma matrix_declare_pass_found:
  "map digest (pass_writes matrix_declare_pattern matrix_declare_entry t) = found matrix_declare_pattern VARIABLE t \<and>
   list_all named (pass_writes matrix_declare_pattern matrix_declare_entry t)"
  unfolding pass_writes_def found_def
proof (rule pass_found_general)
  fix m
  assume m: "m \<in> set (finditer True matrix_declare_pattern t)"
  have g1: "mgroup m 1 \<noteq> None"
    by (rule finditer_groups[OF m]) (simp add: matrix_declare_pattern_def pattern_parts)
  have g2: "mgroup m 2 \<noteq> None"
    by (rule finditer_groups[OF m]) (simp add: matrix_declare_pattern_def pattern_parts)
  have g3: "mgroup m 3 \<noteq> None"
    by (rule finditer_groups[OF m]) (simp add: matrix_declare_pattern_def pattern_parts)
  show "map digest (entry_writes (matrix_declare_entry t) m) =
          [(match_name m, VARIABLE, find_position t (mstart m))] \<and>
        list_all named (entry_writes (matrix_declare_entry t) m)"
    by (rule matrix_declare_entry_found) (fact g1 g2 g3)+
qed

lemma structure_entry_found:
  "mgroup m 1 \<noteq> None \<Longrightarrow>
   map digest (entry_writes (structure_entry t) m) = [(match_name m, STRUCTURE, find_position t (mstart m))] \<and>
   list_all named (entry_writes (structure_entry t) m)"
  by (auto simp: structure_entry_def entry_writes_def set_symbol_def init_def Let_def digest_def
        named_def match_name_def new_symbol_def split: prod.splits option.splits)

lemma structure_pass_found:
  "map digest (pass_writes structure_pattern structure_entry t) = found structure_pattern STRUCTURE t \<and>
   list_all named (pass_writes structure_pattern structure_entry t)"
  unfolding pass_writes_def found_def
proof (rule pass_found_general)
  fix m
  assume m: "m \<in> set (finditer True structure_pattern t)"
  have g1: "mgroup m 1 \<noteq> None"
    by (rule finditer_groups[OF m]) (simp add: structure_pattern_def pattern_parts)
  show "map digest (entry_writes (structure_entry t) m) =
          [(match_name m, STRUCTURE, find_position t (mstart m))] \<and>
        list_all named (entry_writes (structure_entry t) m)"
    by (rule structure_entry_found) (fact g1)+
qed

lemma replace_entry_found:
  "mgroup m 1 \<noteq> None \<Longrightarrow> mgroup m 2 \<noteq> None \<Longrightarrow>
   map digest (entry_writes (replace_entry t) m) = [(match_name m, REPLACE, find_position t (mstart m))] \<and>
   list_all named (entry_writes (replace_entry t) m)"
  by (auto simp: replace_entry_def entry_writes_def set_symbol_def init_def Let_def digest_def
        named_def match_name_def new_symbol_def split: prod.splits option.splits)

lemma replace_pass_found:
  "map digest (pass_writes replace_pattern replace_entry t) = found replace_pattern REPLACE t \<and>
   list_all named (pass_writes replace_pattern replace_entry t)"
  unfolding pass_writes_def found_def
proof (rule pass_found_general)
  fix m
  assume m: "m \<in> set (finditer True replace_pattern t)"
  have g1: "mgroup m 1 \<noteq> None"
    by (rule finditer_groups[OF m]) (simp add: replace_pattern_def pattern_parts)
  have g2: "mgroup m 2 \<noteq> None"
    by (rule finditer_groups[OF m]) (simp add: replace_pattern_def pattern_parts)
  show "map digest (entry_writes (replace_entry t) m) =
          [(match_name m, REPLACE, find_position t (mstart m))] \<and>
        list_all named (entry_writes (replace_entry t) m)"
    by (rule replace_entry_found) (fact g1 g2)+
qed

lemma label_entry_found:
  "mgroup m 1 \<noteq> None \<Longrightarrow>
   map digest (entry_writes (label_entry t) m) =
     (if label_candidate t m then [(match_name m, LABEL, find_position t (mstart m))] else []) \<and>
   list_all named (entry_writes (label_entry t) m)"
  by (auto simp: label_entry_def entry_writes_def set_symbol_def init_def Let_def digest_def
        named_def match_name_def new_symbol_def label_candidate_def dict_has_def
        split: prod.splits option.splits)

lemma label_found_general:
  assumes "\<And>m. m \<in> set ms \<Longrightarrow>
      map digest (entry_writes e m) =
        (if c m then [(match_name m, k, find_position t (mstart m))] else []) \<and>
      list_all named (entry_writes e m)"
  shows "map digest (concat (map (entry_writes e) ms)) =
           map (\<lambda>m. (match_name m, k, find_position t (mstart m))) (filter c ms) \<and>
         list_all named (concat (map (entry_writes e) ms))"
  using assms by (induction ms) simp_all

lemma label_pass_found:
  "map digest (label_writes t) = found_labels t \<and> list_all named (label_writes t)"
  unfolding label_writes_def pass_writes_def found_labels_def
proof (rule label_found_general)
  fix m
  assume m: "m \<in> set (finditer True label_pattern t)"
  have g1: "mgroup m 1 \<noteq> None"
    by (rule finditer_groups[OF m]) (simp add: label_pattern_def pattern_parts)
  show "map digest (entry_writes (label_entry t) m) =
          (if label_candidate t m then [(match_name m, LABEL, find_position t (mstart m))]
           else []) \<and>
        list_all named (entry_writes (label_entry t) m)"
    by (rule label_entry_found) (fact g1)
qed

section \<open>Last write wins\<close>

lemma map_of_dict_set: "map_of (dict_set d k v) = (map_of d)(k \<mapsto> v)"
  by (induction d) (auto simp: fun_eq_iff)

lemma map_of_apply_writes:
  "map_of (symbols (apply_writes P ws)) n =
     (case map_of (rev ws) n of Some v \<Rightarrow> Some v | None \<Rightarrow> map_of (symbols P) n)"
proof (induction ws arbitrary: P)
  case Nil
  then show ?case by simp
next
  case (Cons kv ws)
  have step: "apply_writes P (kv # ws) = apply_writes (set_symbol P (fst kv) (snd kv)) ws"
    by (simp add: apply_writes_def)
  show ?case
    unfolding step Cons.IH
    by (cases kv) (auto simp: set_symbol_def map_of_dict_set map_add_def split: option.splits)
qed

lemma map_of_add_absent:
  "map_of (symbols (add_absent P ws)) n =
     (case map_of (symbols P) n of Some v \<Rightarrow> Some v | None \<Rightarrow> map_of ws n)"
proof (induction ws arbitrary: P)
  case Nil
  then show ?case by (simp split: option.splits)
next
  case (Cons kv ws)
  have step: "add_absent P (kv # ws) =
      add_absent (if dict_has (symbols P) (fst kv) then P else set_symbol P (fst kv) (snd kv)) ws"
    by (simp add: add_absent_def)
  show ?case
    unfolding step Cons.IH
    by (cases kv)
       (auto simp: set_symbol_def map_of_dict_set dict_has_def split: option.splits)
qed

lemma last_write_concat: "last_write wss n = map_of (rev (concat wss)) n"
  by (induction wss) (auto simp: map_add_def split: option.splits)

lemma retained_eq:
  "retained t n =
     (case map_of (rev (declared_writes t)) n of
        Some v \<Rightarrow> Some v
      | None \<Rightarrow> map_of (label_writes t) n)"
  unfolding retained_def last_write_concat declared_writes_def label_writes_def ..

lemma parse_symbols:
  "parse P text = Inr Q \<Longrightarrow>
   symbols Q = symbols (add_absent (apply_writes (reset P text) (declared_writes (cleaned text)))
                          (label_writes (cleaned text)))"
  using parse_eq[of P "text"] by auto

lemma map_of_digest:
  "map_of (map digest ws) n = map_option (\<lambda>s. (kind s, line s, column s)) (map_of ws n)"
  by (induction ws) (auto simp: digest_def)

lemma last_found_digest:
  "list_all2 (\<lambda>ws fs. map digest ws = fs) wss fss \<Longrightarrow>
   last_found fss n = map_option (\<lambda>s. (kind s, line s, column s)) (last_write wss n)"
proof (induction wss fss rule: list_all2_induct)
  case Nil
  then show ?case by simp
next
  case (Cons ws wss fs fss)
  have "rev fs = map digest (rev ws)"
    unfolding Cons.hyps(1)[symmetric] by (simp add: rev_map)
  then have "map_of (rev fs) n =
      map_option (\<lambda>s. (kind s, line s, column s)) (map_of (rev ws) n)"
    by (simp add: map_of_digest)
  then show ?case using Cons.IH by (simp split: option.splits)
qed

lemma recognizers_found:
  "list_all2 (\<lambda>ws fs. map digest ws = fs)
     (map (\<lambda>(pat, e). pass_writes pat e t) overwriting_passes)
     (map (\<lambda>(pat, k). found pat k t) recognizers)"
  unfolding overwriting_passes_def recognizers_def
  by (simp add: program_pass_found procedure_pass_found function_pass_found task_pass_found
        compool_pass_found simple_declare_pass_found array_declare_pass_found
        constant_declare_pass_found vector_declare_pass_found matrix_declare_pass_found
        structure_pass_found replace_pass_found)

lemma declared_writes_named: "list_all named (declared_writes t)"
  unfolding declared_writes_def overwriting_passes_def
  by (simp add: program_pass_found procedure_pass_found function_pass_found task_pass_found
        compool_pass_found simple_declare_pass_found array_declare_pass_found
        constant_declare_pass_found vector_declare_pass_found matrix_declare_pass_found
        structure_pass_found replace_pass_found)

lemma named_map_of: "list_all named ws \<Longrightarrow> map_of ws n = Some s \<Longrightarrow> name s = n"
  by (induction ws) (auto simp: named_def split: if_splits)

lemma retained_named: "retained t n = Some s \<Longrightarrow> name s = n"
proof -
  assume r: "retained t n = Some s"
  have rev_named: "list_all named (rev (declared_writes t))"
    using declared_writes_named[of t] by (simp add: list_all_iff)
  show ?thesis
  proof (cases "map_of (rev (declared_writes t)) n")
    case None
    then have "map_of (label_writes t) n = Some s" using r by (simp add: retained_eq)
    then show ?thesis using named_map_of label_pass_found by blast
  next
    case (Some v)
    then have "v = s" using r by (simp add: retained_eq)
    then show ?thesis using named_map_of[OF rev_named] Some by blast
  qed
qed

lemma retained_digest:
  "map_option (\<lambda>s. (kind s, line s, column s)) (retained t n) = retained_match t n"
proof -
  have lf: "last_found (map (\<lambda>(pat, k). found pat k t) recognizers) n =
      map_option (\<lambda>s. (kind s, line s, column s))
        (last_write (map (\<lambda>(pat, e). pass_writes pat e t) overwriting_passes) n)"
    by (rule last_found_digest[OF recognizers_found])
  have lb: "map_of (found_labels t) n =
      map_option (\<lambda>s. (kind s, line s, column s)) (map_of (label_writes t) n)"
    using label_pass_found[of t] map_of_digest[of "label_writes t" n] by simp
  show ?thesis
    unfolding retained_def retained_match_def lf lb label_writes_def[symmetric]
    by (simp split: option.splits)
qed

text \<open>
  Claim C1. For every text and every canonical name, the entry of the symbol table after
  \<open>parse\<close> is the one written for the match \<open>retained_match\<close> selects in the normalized text:
  the last match of the last of the twelve overwriting recognizers, in the fixed order
  program, procedure, function, task, compool, scalar declare, array declare, constant
  declare, vector declare, matrix declare, structure, replace, whose pattern matches the
  name. The entry carries the name, the kind of that recognizer and the position of that
  match. A label is kept only for a name that none of the twelve matches, and then it is the
  first label match, since the label pass leaves an entry already present alone. The entry as
  a whole is \<open>retained\<close>, the symbol the loop body of that pass builds for that match.
\<close>

theorem last_write_wins:
  "\<exists>Q. parse P text = Inr Q \<and>
     dict_get (symbols Q) n = retained (cleaned text) n \<and>
     map_option (\<lambda>s. (name s, kind s, line s, column s)) (dict_get (symbols Q) n) =
       map_option (\<lambda>v. (n, v)) (retained_match (cleaned text) n)"
proof -
  obtain Q where Q: "parse P text = Inr Q" using parse_eq[of P "text"] by blast
  have r: "dict_get (symbols Q) n = retained (cleaned text) n"
    unfolding dict_get_def parse_symbols[OF Q] retained_eq
    by (simp add: map_of_add_absent map_of_apply_writes split: option.splits)
  have "map_option (\<lambda>s. (name s, kind s, line s, column s)) (retained (cleaned text) n) =
       map_option (\<lambda>v. (n, v)) (retained_match (cleaned text) n)"
  proof (cases "retained (cleaned text) n")
    case None
    then show ?thesis using retained_digest[of "cleaned text" n] by simp
  next
    case (Some s)
    have rm: "retained_match (cleaned text) n = Some (kind s, line s, column s)"
      using retained_digest[of "cleaned text" n] Some by simp
    have nm: "name s = n" by (rule retained_named[OF Some])
    show ?thesis unfolding Some rm by (simp add: nm)
  qed
  then show ?thesis using Q r by auto
qed

section \<open>The document outline\<close>

lemma keys_dict_set:
  "map fst (dict_set d k v) = (if k \<in> set (map fst d) then map fst d else map fst d @ [k])"
  by (induction d) (force split: if_splits)+

lemma keys_apply_writes:
  "map fst (symbols (apply_writes P ws)) = foldl (\<lambda>acc x. if x \<in> set acc then acc else acc @ [x]) (map fst (symbols P)) (map fst ws)"
proof (induction ws arbitrary: P)
  case Nil
  then show ?case by simp
next
  case (Cons kv ws)
  have step: "apply_writes P (kv # ws) = apply_writes (set_symbol P (fst kv) (snd kv)) ws"
    by (simp add: apply_writes_def)
  show ?case
    unfolding step Cons.IH
    by (simp add: set_symbol_def keys_dict_set)
qed

lemma keys_add_absent:
  "map fst (symbols (add_absent P ws)) = foldl (\<lambda>acc x. if x \<in> set acc then acc else acc @ [x]) (map fst (symbols P)) (map fst ws)"
proof (induction ws arbitrary: P)
  case Nil
  then show ?case by simp
next
  case (Cons kv ws)
  have step: "add_absent P (kv # ws) =
      add_absent (if dict_has (symbols P) (fst kv) then P else set_symbol P (fst kv) (snd kv)) ws"
    by (simp add: add_absent_def)
  have has: "dict_has (symbols P) (fst kv) = (fst kv \<in> set (map fst (symbols P)))"
    by (simp add: dict_has_def map_of_eq_None_iff)
  show ?case
    unfolding step Cons.IH
    by (simp add: set_symbol_def keys_dict_set has)
qed

lemma parse_keys:
  assumes "parse P text = Inr Q"
  shows "map fst (symbols Q) =
     first_occurrences (map fst (declared_writes (cleaned text) @ label_writes (cleaned text)))"
proof -
  show ?thesis
    unfolding parse_symbols[OF assms] first_occurrences_def
    by (simp add: keys_add_absent keys_apply_writes)
qed

text \<open>
  Claim C9, amended. For every parsed text the outline has exactly one entry for each entry
  of the symbol table, is ordered ascending by declaration line, and keeps the entries of
  one line in the order of the table. The order of the table is the order in which the names
  were first inserted by the passes: an entry that a later pass overwrites stays where the
  name was first inserted.
\<close>

theorem outline_sorted_stable:
  "\<exists>Q. parse P text = Inr Q \<and>
     map fst (symbols Q) =
       first_occurrences (map fst (declared_writes (cleaned text) @ label_writes (cleaned text))) \<and>
     mset (get_document_symbols Q) = mset (map (\<lambda>(nm, smb). outline_entry smb) (symbols Q)) \<and>
     sorted (map ds_line (get_document_symbols Q)) \<and>
     (\<forall>k. filter (\<lambda>d. ds_line d = k) (get_document_symbols Q) =
          filter (\<lambda>d. ds_line d = k) (map (\<lambda>(nm, smb). outline_entry smb) (symbols Q)))"
proof -
  obtain Q where Q: "parse P text = Inr Q" using parse_eq[of P "text"] by blast
  have "map fst (symbols Q) =
       first_occurrences (map fst (declared_writes (cleaned text) @ label_writes (cleaned text)))"
    by (rule parse_keys[OF Q])
  moreover have "mset (get_document_symbols Q) =
      mset (map (\<lambda>(nm, smb). outline_entry smb) (symbols Q))"
    by (simp add: get_document_symbols_def)
  moreover have "sorted (map ds_line (get_document_symbols Q))"
    by (simp add: get_document_symbols_def)
  moreover have "\<forall>k. filter (\<lambda>d. ds_line d = k) (get_document_symbols Q) =
          filter (\<lambda>d. ds_line d = k) (map (\<lambda>(nm, smb). outline_entry smb) (symbols Q))"
    by (simp add: get_document_symbols_def sort_key_stable)
  ultimately show ?thesis using Q by blast
qed

lemma tie_text_cleaned:
  "cleaned ''A:TASK;B:COMPOOL;DECLARE A BIT;'' = ''A:TASK;B:COMPOOL;DECLARE A BIT;''"
  by (simp add: eval_cleaned eval_chars eval_patterns)

lemma tie_text_writes:
  "map (\<lambda>(pat, e). pass_writes pat e ''A:TASK;B:COMPOOL;DECLARE A BIT;'') overwriting_passes =
     [[], [], [],
      [(''A'', (new_symbol ''A'' TASK ''TASK'' 0 0)
                 \<lparr>documentation := ''Real-time task (schedulable process)''\<rparr>)],
      [(''B'', (new_symbol ''B'' COMPOOL ''COMPOOL'' 0 7)
                 \<lparr>documentation := ''Communication pool (shared data)''\<rparr>)],
      [(''A'', (new_symbol ''A'' VARIABLE ''BIT'' 0 17)
                 \<lparr>documentation := ''BIT variable''\<rparr>)],
      [], [], [], [], [], []]"
  by (simp add: overwriting_passes_def finditer_def finditer_from.simps
        eval_chars eval_patterns eval_entries)

lemma tie_text_labels: "label_writes ''A:TASK;B:COMPOOL;DECLARE A BIT;'' = []"
  by (simp add: label_writes_def finditer_def finditer_from.simps
        eval_chars eval_patterns eval_entries)

text \<open>
  Claim C9 as stated fails on the one-line text \<open>A:TASK;B:COMPOOL;DECLARE A BIT;\<close>. The name
  \<open>A\<close> enters the table in the task pass and is overwritten by the scalar declare pass (index
  5 in the fixed order), \<open>B\<close> is written by the compool pass (index 4). Both symbols are on
  line 0, and the outline lists \<open>A\<close> before \<open>B\<close>: not the order of the passes that produced
  the retained symbols.
\<close>

theorem outline_tie_counterexample:
  "map_sum id get_document_symbols (parse init ''A:TASK;B:COMPOOL;DECLARE A BIT;'') =
     Inr [\<lparr>ds_name = ''A'', ds_kind = ''variable'', ds_detail = ''BIT'', ds_line = 0,
            ds_column = 17\<rparr>,
          \<lparr>ds_name = ''B'', ds_kind = ''compool'', ds_detail = ''COMPOOL'', ds_line = 0,
            ds_column = 7\<rparr>] \<and>
   retained_pass (cleaned ''A:TASK;B:COMPOOL;DECLARE A BIT;'') ''A'' = 5 \<and>
   retained_pass (cleaned ''A:TASK;B:COMPOOL;DECLARE A BIT;'') ''B'' = 4 \<and>
   \<not> outline_in_pass_order (cleaned ''A:TASK;B:COMPOOL;DECLARE A BIT;'')
       [\<lparr>ds_name = ''A'', ds_kind = ''variable'', ds_detail = ''BIT'', ds_line = 0,
          ds_column = 17\<rparr>,
        \<lparr>ds_name = ''B'', ds_kind = ''compool'', ds_detail = ''COMPOOL'', ds_line = 0,
          ds_column = 7\<rparr>]"
proof -
  have d: "declared_writes ''A:TASK;B:COMPOOL;DECLARE A BIT;'' =
     [(''A'', (new_symbol ''A'' TASK ''TASK'' 0 0)
                 \<lparr>documentation := ''Real-time task (schedulable process)''\<rparr>),
      (''B'', (new_symbol ''B'' COMPOOL ''COMPOOL'' 0 7)
                 \<lparr>documentation := ''Communication pool (shared data)''\<rparr>),
      (''A'', (new_symbol ''A'' VARIABLE ''BIT'' 0 17)
                 \<lparr>documentation := ''BIT variable''\<rparr>)]"
    unfolding declared_writes_def tie_text_writes by simp
  have rA: "retained_pass ''A:TASK;B:COMPOOL;DECLARE A BIT;'' ''A'' = 5"
    unfolding retained_pass_def tie_text_writes by simp
  have rB: "retained_pass ''A:TASK;B:COMPOOL;DECLARE A BIT;'' ''B'' = 4"
    unfolding retained_pass_def tie_text_writes by simp
  have out: "map_sum id get_document_symbols (parse init ''A:TASK;B:COMPOOL;DECLARE A BIT;'') =
     Inr [\<lparr>ds_name = ''A'', ds_kind = ''variable'', ds_detail = ''BIT'', ds_line = 0,
            ds_column = 17\<rparr>,
          \<lparr>ds_name = ''B'', ds_kind = ''compool'', ds_detail = ''COMPOOL'', ds_line = 0,
            ds_column = 7\<rparr>]"
    unfolding parse_eq tie_text_cleaned d tie_text_labels
    by (simp add: get_document_symbols_def apply_writes_def set_symbol_def new_symbol_def
          outline_entry_def)
  show ?thesis
    unfolding tie_text_cleaned
    using out rA rB by (simp add: outline_in_pass_order_def)
qed

section \<open>Continuation unfolding\<close>










lemma split_nonempty: "split sep s \<noteq> []"
  by (cases s) (auto split: list.splits)












section \<open>Positions\<close>










lemma split_Cons_sep: "split sep (sep # xs) = [] # split sep xs"
  by simp


























section \<open>Comment stripping\<close>

lemma comment_pattern_eq:
  "comment_pattern =
     Seq (Seq (Atom (Lit CHR ''/'')) (Atom (Lit CHR ''*'')))
         (Seq (LazyStar DotAll) (Seq (Atom (Lit CHR ''*'')) (Atom (Lit CHR ''/''))))"
  by (simp add: comment_pattern_def lit_def)

lemma two_chars_matches:
  "matches False (Seq (Atom (Lit x)) (Atom (Lit y))) (p, s, g) =
     (case s of
        a # b # r \<Rightarrow> if a = x \<and> b = y then [(Some y, r, g)] else []
      | _ \<Rightarrow> [])"
  by (auto simp: item_match_def split: list.splits)

lemma lazy_close_Nil:
  "matches False (Seq (LazyStar DotAll) (Seq (Atom (Lit x)) (Atom (Lit y)))) (p, [], g) = []"
  by (simp add: item_match_def)

lemma lazy_close_Cons:
  "matches False (Seq (LazyStar DotAll) (Seq (Atom (Lit x)) (Atom (Lit y)))) (p, c # cs, g) =
     matches False (Seq (Atom (Lit x)) (Atom (Lit y))) (p, c # cs, g) @
     matches False (Seq (LazyStar DotAll) (Seq (Atom (Lit x)) (Atom (Lit y)))) (Some c, cs, g)"
  by (simp del: matches.simps(2) add: matches.simps(4)[of False "Atom (Lit x)" "Atom (Lit y)"])

lemma lazy_close_first:
  "(case matches False (Seq (LazyStar DotAll)
           (Seq (Atom (Lit CHR ''*'')) (Atom (Lit CHR ''/'')))) (p, s, g) of
      [] \<Rightarrow> None
    | st # _ \<Rightarrow> Some st) =
   map_option (\<lambda>r. (Some CHR ''/'', r, g)) (after_close s)"
proof (induction s arbitrary: p rule: after_close.induct)
  case (1 a b r)
  show ?case
  proof (cases "a = CHR ''*'' \<and> b = CHR ''/''")
    case True
    then show ?thesis
      unfolding lazy_close_Cons[of _ _ p a] two_chars_matches by simp
  next
    case False
    then show ?thesis
      unfolding lazy_close_Cons[of _ _ p a] two_chars_matches using 1[of "Some a"] by auto
  qed
next
  case (2 a)
  then show ?case
    unfolding lazy_close_Cons two_chars_matches by (simp add: lazy_close_Nil)
next
  case 3
  then show ?case by (simp add: lazy_close_Nil)
qed

lemma comment_first:
  "(case matches False comment_pattern (p, s, g) of [] \<Rightarrow> None | st # _ \<Rightarrow> Some st) =
     map_option (\<lambda>r. (Some CHR ''/'', r, g))
       (case s of
          a # b # r \<Rightarrow> if a = CHR ''/'' \<and> b = CHR ''*'' then after_close r else None
        | _ \<Rightarrow> None)"
proof -
  have seq: "matches False comment_pattern (p, s, g) =
      concat (map (matches False
                (Seq (LazyStar DotAll) (Seq (Atom (Lit CHR ''*'')) (Atom (Lit CHR ''/'')))))
        (matches False (Seq (Atom (Lit CHR ''/'')) (Atom (Lit CHR ''*''))) (p, s, g)))"
    unfolding comment_pattern_eq by (rule matches.simps(4))
  show ?thesis
  proof (cases "\<exists>r. s = CHR ''/'' # CHR ''*'' # r")
    case True
    then obtain r where r: "s = CHR ''/'' # CHR ''*'' # r" by blast
    have "matches False comment_pattern (p, s, g) =
        matches False (Seq (LazyStar DotAll) (Seq (Atom (Lit CHR ''*'')) (Atom (Lit CHR ''/''))))
          (Some CHR ''*'', r, g)"
      unfolding seq two_chars_matches by (simp del: matches.simps add: r)
    then show ?thesis using lazy_close_first[of "Some CHR ''*''" r g] r by simp
  next
    case False
    have "matches False comment_pattern (p, s, g) = []"
      unfolding seq two_chars_matches using False
      by (auto simp del: matches.simps split: list.splits)
    then show ?thesis using False by (auto split: list.splits)
  qed
qed

lemma after_close_shorter: "after_close r = Some rest \<Longrightarrow> length rest < length r"
  by (induction r rule: after_close.induct) (auto split: if_splits)

lemma sub_from_comments: "sub_from False comment_pattern [] p s = strip_comments s"
proof (induction s arbitrary: p rule: length_induct)
  case (1 s)
  show ?case
  proof (cases s)
    case Nil
    have "matches False comment_pattern (p, [], \<lambda>_. None) = []"
      using comment_first[of p "[]" "\<lambda>_. None"] by (simp split: list.splits)
    then show ?thesis using Nil by (subst sub_from.simps) simp
  next
    case (Cons c cs)
    let ?close = "(if c = CHR ''/'' \<and> take 1 cs = ''*'' then after_close (drop 1 cs) else None)"
    have first: "(case matches False comment_pattern (p, s, \<lambda>_. None) of
          [] \<Rightarrow> None | st # _ \<Rightarrow> Some st) =
        map_option (\<lambda>r. (Some CHR ''/'', r, \<lambda>_. None)) ?close"
      unfolding comment_first Cons by (cases cs) auto
    show ?thesis
    proof (cases ?close)
      case None
      then have "matches False comment_pattern (p, s, \<lambda>_. None) = []"
        using first by (simp split: list.splits)
      moreover have "sub_from False comment_pattern [] (Some c) cs = strip_comments cs"
        using 1 Cons by simp
      ultimately show ?thesis
        using Cons None by (subst sub_from.simps) simp
    next
      case (Some rest)
      then obtain more where m: "matches False comment_pattern (p, s, \<lambda>_. None) =
          (Some CHR ''/'', rest, \<lambda>_. None) # more"
        using first by (auto split: list.splits)
      have "after_close (drop 1 cs) = Some rest" using Some by (simp split: if_splits)
      then have "length rest < length (drop 1 cs)" by (rule after_close_shorter)
      then have len: "length rest < length s" using Cons by simp
      then have "sub_from False comment_pattern [] (Some CHR ''/'') rest = strip_comments rest"
        using 1 by simp
      then show ?thesis
        using Cons Some m len by (subst sub_from.simps) simp
    qed
  qed
qed

text \<open>
  Claim C6, amended. Comment stripping removes every block comment from the unfolded text,
  where a comment runs from an opening \<open>/*\<close> to the first \<open>*/\<close> after it (lazy matching), also
  across line ends, and comments do not nest; an opening with no \<open>*/\<close> after it and all text
  outside comments stay as they are.
\<close>

theorem remove_comments_lazy:
  "remove_comments text = strip_comments text"
  by (simp add: remove_comments_def re_sub_def sub_from_comments)

text \<open>
  Claim C6 as stated, with greedy matching, fails on \<open>a/*x*/b/*y*/c\<close>: the code keeps the
  \<open>b\<close> between the two comments, a greedy match runs from the first opening to the last
  close and takes the \<open>b\<close> along.
\<close>

theorem greedy_comment_counterexample:
  "remove_comments ''a/*x*/b/*y*/c'' = ''abc'' \<and>
   remove_comments_greedy ''a/*x*/b/*y*/c'' = ''ac''"
  by (simp add: remove_comments_def remove_comments_greedy_def greedy_comment_pattern_def
        re_sub_def sub_from.simps eval_chars eval_patterns)

section \<open>The navigation loop scenario\<close>

lemma nav_cleaned:
  "cleaned (''NAV_LOOP:'' @ [CHR 0x0A] @ ''DO WHILE TRUE;'' @ [CHR 0x0A] @ ''GO TO NAV_LOOP;'' @
            [CHR 0x0A] @ ''END;'') =
     ''NAV_LOOP:'' @ [CHR 0x0A] @ ''DO WHILE TRUE;'' @ [CHR 0x0A] @ ''GO TO NAV_LOOP;''"
  by (simp add: eval_cleaned eval_chars eval_patterns)

lemma nav_declared:
  "declared_writes (''NAV_LOOP:'' @ [CHR 0x0A] @ ''DO WHILE TRUE;'' @ [CHR 0x0A] @
                    ''GO TO NAV_LOOP;'') = []"
  by (simp add: declared_writes_def overwriting_passes_def finditer_def finditer_from.simps
        eval_chars eval_patterns eval_entries)

lemma nav_labels:
  "label_writes (''NAV_LOOP:'' @ [CHR 0x0A] @ ''DO WHILE TRUE;'' @ [CHR 0x0A] @
                 ''GO TO NAV_LOOP;'') =
     [(''NAV_LOOP'', (new_symbol ''NAV_LOOP'' LABEL ''LABEL'' 0 0)
                       \<lparr>documentation := ''Statement label (GO TO target)''\<rparr>)]"
  by (simp add: label_writes_def finditer_def finditer_from.simps
        eval_chars eval_patterns eval_entries)

lemma nav_refs:
  "collected_refs (''NAV_LOOP:'' @ [CHR 0x0A] @ ''DO WHILE TRUE;'' @ [CHR 0x0A] @
                   ''GO TO NAV_LOOP;'') =
     [\<lparr>ref_name = ''NAV_LOOP'', ref_line = 0, ref_column = 0, ref_end_column = 8,
        ref_context = []\<rparr>,
      \<lparr>ref_name = ''NAV_LOOP'', ref_line = 2, ref_column = 6, ref_end_column = 14,
        ref_context = []\<rparr>]"
  by (simp add: collected_refs_def finditer_def finditer_from.simps
        eval_chars eval_patterns eval_entries is_keyword_def KEYWORDS_def)

lemma nav_lines:
  "split newline (''NAV_LOOP:'' @ [CHR 0x0A] @ ''DO WHILE TRUE;'' @ [CHR 0x0A] @
                  ''GO TO NAV_LOOP;'' @ [CHR 0x0A] @ ''END;'') =
     [''NAV_LOOP:'', ''DO WHILE TRUE;'', ''GO TO NAV_LOOP;'', ''END;'']"
  by (simp add: newline_def)

lemma nav_target:
  "map (\<lambda>c. target_scan c (finditer True reference_pattern ''GO TO NAV_LOOP;''))
     [6, 7, 8, 9, 10, 11, 12, 13] =
   [Inr (Some ''NAV_LOOP''), Inr (Some ''NAV_LOOP''), Inr (Some ''NAV_LOOP''), Inr (Some ''NAV_LOOP''), Inr (Some ''NAV_LOOP''), Inr (Some ''NAV_LOOP''), Inr (Some ''NAV_LOOP''), Inr (Some ''NAV_LOOP'')]"
  by (simp add: finditer_def finditer_from.simps under_cursor_def upper_def
        eval_chars eval_patterns)

text \<open>
  Claim C10. On the four-line text \<open>NAV_LOOP:\<close>, \<open>DO WHILE TRUE;\<close>, \<open>GO TO NAV_LOOP;\<close>,
  \<open>END;\<close> the symbol table after \<open>parse\<close> holds exactly the label \<open>NAV_LOOP\<close> at line 0, and
  \<open>get_references_at\<close> at each column of the \<open>NAV_LOOP\<close> on the \<open>GO TO\<close> line (line 2,
  columns 6 to 13) returns exactly two references, one on line 0 and one on line 2.
\<close>

theorem nav_loop_scenario:
  "map_sum id (\<lambda>Q. map (\<lambda>(n, s). (n, kind s, line s, column s)) (symbols Q))
     (parse init (''NAV_LOOP:'' @ [CHR 0x0A] @ ''DO WHILE TRUE;'' @ [CHR 0x0A] @
                  ''GO TO NAV_LOOP;'' @ [CHR 0x0A] @ ''END;'')) =
     Inr [(''NAV_LOOP'', LABEL, 0, 0)] \<and>
   map_sum id
     (\<lambda>Q. list_all
            (\<lambda>c. get_references_at Q 2 c =
                   Inr [\<lparr>span_line = 0, span_column = 0, span_end_column = 8\<rparr>,
                        \<lparr>span_line = 2, span_column = 6, span_end_column = 14\<rparr>])
            [6, 7, 8, 9, 10, 11, 12, 13])
     (parse init (''NAV_LOOP:'' @ [CHR 0x0A] @ ''DO WHILE TRUE;'' @ [CHR 0x0A] @
                  ''GO TO NAV_LOOP;'' @ [CHR 0x0A] @ ''END;'')) = Inr True"
proof -
  define Q where "Q = (add_absent (reset init (''NAV_LOOP:'' @ [CHR 0x0A] @ ''DO WHILE TRUE;'' @
        [CHR 0x0A] @ ''GO TO NAV_LOOP;'' @ [CHR 0x0A] @ ''END;''))
          [(''NAV_LOOP'', (new_symbol ''NAV_LOOP'' LABEL ''LABEL'' 0 0)
                       \<lparr>documentation := ''Statement label (GO TO target)''\<rparr>)])
         \<lparr>references :=
            [\<lparr>ref_name = ''NAV_LOOP'', ref_line = 0, ref_column = 0, ref_end_column = 8,
               ref_context = []\<rparr>,
             \<lparr>ref_name = ''NAV_LOOP'', ref_line = 2, ref_column = 6, ref_end_column = 14,
               ref_context = []\<rparr>]\<rparr>"
  have p: "parse init (''NAV_LOOP:'' @ [CHR 0x0A] @ ''DO WHILE TRUE;'' @
        [CHR 0x0A] @ ''GO TO NAV_LOOP;'' @ [CHR 0x0A] @ ''END;'') = Inr Q"
    unfolding parse_eq nav_cleaned nav_declared nav_labels nav_refs Q_def by simp
  have li: "lines Q = [''NAV_LOOP:'', ''DO WHILE TRUE;'', ''GO TO NAV_LOOP;'', ''END;'']"
    unfolding Q_def using nav_lines by simp
  have rf: "references Q =
      [\<lparr>ref_name = ''NAV_LOOP'', ref_line = 0, ref_column = 0, ref_end_column = 8,
         ref_context = []\<rparr>,
       \<lparr>ref_name = ''NAV_LOOP'', ref_line = 2, ref_column = 6, ref_end_column = 14,
         ref_context = []\<rparr>]"
    unfolding Q_def by simp
  have sy: "map (\<lambda>(n, s). (n, kind s, line s, column s)) (symbols Q) =
      [(''NAV_LOOP'', LABEL, 0, 0)]"
    unfolding Q_def
    by (simp add: add_absent_def set_symbol_def new_symbol_def dict_has_def)
  have ix: "py_index (lines Q) 2 = Inr ''GO TO NAV_LOOP;''"
    unfolding li py_index_def by simp
  have tg: "list_all (\<lambda>c. target_scan c (finditer True reference_pattern ''GO TO NAV_LOOP;'') =
      Inr (Some ''NAV_LOOP'')) [6, 7, 8, 9, 10, 11, 12, 13]"
    using nav_target by (simp del: target_scan.simps)
  have ln: "\<not> 2 \<ge> int (length (lines Q))"
    unfolding li by simp
  have g: "get_references_at Q 2 c =
      Inr [\<lparr>span_line = 0, span_column = 0, span_end_column = 8\<rparr>,
           \<lparr>span_line = 2, span_column = 6, span_end_column = 14\<rparr>]"
    if "target_scan c (finditer True reference_pattern ''GO TO NAV_LOOP;'') =
      Inr (Some ''NAV_LOOP'')" for c
    unfolding get_references_at_def ix rf using ln by (simp add: that del: target_scan.simps)
  have ga: "list_all
            (\<lambda>c. get_references_at Q 2 c =
                   Inr [\<lparr>span_line = 0, span_column = 0, span_end_column = 8\<rparr>,
                        \<lparr>span_line = 2, span_column = 6, span_end_column = 14\<rparr>])
            [6, 7, 8, 9, 10, 11, 12, 13]"
    using tg g by (simp add: list_all_iff del: target_scan.simps)
  show ?thesis
    unfolding p using sy ga by simp
qed

end
